theory Spec2Isabelle
  imports Complex_Main "HOL-Library.Sublist"
begin

section \<open>Text\<close>

text \<open>
  Text is a list of 8-bit characters, the bytes of its UTF-8 form: ASCII text is
  written directly, the pictographs of the templates as their bytes. The trigger words
  of the classifier are ASCII; \<^verbatim>\<open>toLowerCase\<close> is modelled on the ASCII letters and
  leaves every other byte as it is.
\<close>

definition toLowerChar :: "char \<Rightarrow> char" where
  "toLowerChar c =
     (if 65 \<le> (of_char c :: nat) \<and> (of_char c :: nat) \<le> 90
      then char_of ((of_char c :: nat) + 32) else c)"

definition toLowerCase :: "string \<Rightarrow> string" where
  "toLowerCase text = map toLowerChar text"

text \<open>\<^verbatim>\<open>text.includes(k)\<close>: \<open>k\<close> occurs in \<open>text\<close> as a contiguous run.\<close>

fun includes_str :: "string \<Rightarrow> string \<Rightarrow> bool" where
  "includes_str [] k = (k = [])"
| "includes_str (c # cs) k = (prefix k (c # cs) \<or> includes_str cs k)"

text \<open>
  \<^verbatim>\<open>trim\<close> strips white space and line terminators from both ends. They are
  the code points U+0009 to U+000D, U+0020, U+00A0, U+1680, U+2000 to U+200A, U+2028,
  U+2029, U+202F, U+205F, U+3000 and U+FEFF, listed here in their UTF-8 form.
\<close>

definition whiteSpace :: "string list" where
  "whiteSpace =
     [[CHR 0x09], [CHR 0x0A], [CHR 0x0B], [CHR 0x0C], [CHR 0x0D], [CHR 0x20],
      [CHR 0xC2, CHR 0xA0], [CHR 0xE1, CHR 0x9A, CHR 0x80],
      [CHR 0xE2, CHR 0x80, CHR 0x80], [CHR 0xE2, CHR 0x80, CHR 0x81],
      [CHR 0xE2, CHR 0x80, CHR 0x82], [CHR 0xE2, CHR 0x80, CHR 0x83],
      [CHR 0xE2, CHR 0x80, CHR 0x84], [CHR 0xE2, CHR 0x80, CHR 0x85],
      [CHR 0xE2, CHR 0x80, CHR 0x86], [CHR 0xE2, CHR 0x80, CHR 0x87],
      [CHR 0xE2, CHR 0x80, CHR 0x88], [CHR 0xE2, CHR 0x80, CHR 0x89],
      [CHR 0xE2, CHR 0x80, CHR 0x8A], [CHR 0xE2, CHR 0x80, CHR 0xA8],
      [CHR 0xE2, CHR 0x80, CHR 0xA9], [CHR 0xE2, CHR 0x80, CHR 0xAF],
      [CHR 0xE2, CHR 0x81, CHR 0x9F], [CHR 0xE3, CHR 0x80, CHR 0x80],
      [CHR 0xEF, CHR 0xBB, CHR 0xBF]]"

function trimStart :: "string \<Rightarrow> string" where
  "trimStart s =
     (case find (\<lambda>w. prefix w s) whiteSpace of
        None \<Rightarrow> s
      | Some w \<Rightarrow> trimStart (drop (length w) s))"
  by pat_completeness auto
termination
proof (relation "measure length")
  fix s w
  assume "find (\<lambda>w. prefix w s) whiteSpace = Some w"
  then have "w \<in> set whiteSpace" and p: "prefix w s"
    by (auto simp: find_Some_iff)
  then have "w \<noteq> []"
    by (auto simp: whiteSpace_def)
  with p show "(drop (length w) s, s) \<in> measure length"
    by (cases w; cases s) auto
qed simp

function trimEnd :: "string \<Rightarrow> string" where
  "trimEnd s =
     (case find (\<lambda>w. suffix w s) whiteSpace of
        None \<Rightarrow> s
      | Some w \<Rightarrow> trimEnd (take (length s - length w) s))"
  by pat_completeness auto
termination
proof (relation "measure length")
  fix s w
  assume "find (\<lambda>w. suffix w s) whiteSpace = Some w"
  then have "w \<in> set whiteSpace" and p: "suffix w s"
    by (auto simp: find_Some_iff)
  then have "w \<noteq> []"
    by (auto simp: whiteSpace_def)
  with p show "(take (length s - length w) s, s) \<in> measure length"
    by (auto simp: suffix_def)
qed simp

declare trimStart.simps [simp del]
declare trimEnd.simps [simp del]

definition trim :: "string \<Rightarrow> string" where
  "trim s = trimEnd (trimStart s)"

text \<open>The white-space characters of ASCII, and the bytes that occur in \<open>whiteSpace\<close>.\<close>

definition isWhitespace :: "char \<Rightarrow> bool" where
  "isWhitespace c = ((of_char c :: nat) = 32 \<or> (9 \<le> (of_char c :: nat) \<and> (of_char c :: nat) \<le> 13))"

definition blankByte :: "char \<Rightarrow> bool" where
  "blankByte c = (c \<in> set (concat whiteSpace))"

text \<open>\<^verbatim>\<open>xs.join(sep)\<close>\<close>

fun join :: "string \<Rightarrow> string list \<Rightarrow> string" where
  "join sep [] = []"
| "join sep [x] = x"
| "join sep (x # y # ys) = x @ sep @ join sep (y # ys)"

text \<open>Decimal rendering of an integer, as \<^verbatim>\<open>String(n)\<close> does for a whole number.\<close>

definition digit :: "nat \<Rightarrow> char" where
  "digit d = char_of (48 + d)"

fun natToString :: "nat \<Rightarrow> string" where
  "natToString n = (if n < 10 then [digit n] else natToString (n div 10) @ [digit (n mod 10)])"

definition toString :: "int \<Rightarrow> string" where
  "toString i = (if i < 0 then CHR ''-'' # natToString (nat (- i)) else natToString (nat i))"

section \<open>Data model\<close>

text \<open>
  \<^verbatim>\<open>UserProfile\<close>: every field but \<open>completeness\<close> is optional. The record is
  parametric in the type of \<open>completeness\<close> so that \<^verbatim>\<open>Partial<UserProfile>\<close>, where
  that field is optional too, is the same record at another type.
\<close>

record 'n Profile =
  major :: "string option"
  colleges :: "string list option"
  essayPrompts :: "string list option"
  extracurriculars :: "string list option"
  classes :: "string list option"
  hobbies :: "string list option"
  awards :: "string list option"
  completeness :: 'n

type_synonym UserProfile = "int Profile"
type_synonym PartialUserProfile = "int option Profile"

datatype Stage = Collection | Generation | Refinement

text \<open>The initial state \<^verbatim>\<open>{ completeness: 0 }\<close> and the empty object \<^verbatim>\<open>{}\<close>.\<close>

definition initialProfile :: UserProfile where
  "initialProfile =
     \<lparr>major = None, colleges = None, essayPrompts = None, extracurriculars = None,
      classes = None, hobbies = None, awards = None, completeness = 0\<rparr>"

definition emptyPartial :: PartialUserProfile where
  "emptyPartial =
     \<lparr>major = None, colleges = None, essayPrompts = None, extracurriculars = None,
      classes = None, hobbies = None, awards = None, completeness = None\<rparr>"

section \<open>Field classifier\<close>

definition analyzeUserInput :: "string \<Rightarrow> PartialUserProfile" where
  "analyzeUserInput text =
     (let lowerText = toLowerCase text;
          profile = emptyPartial;
          profile = (if includes_str lowerText ''major'' \<or> includes_str lowerText ''study''
                        \<or> includes_str lowerText ''field''
                     then profile\<lparr>major := Some text\<rparr> else profile);
          profile = (if includes_str lowerText ''college'' \<or> includes_str lowerText ''university''
                        \<or> includes_str lowerText ''school''
                     then profile\<lparr>colleges := Some [text]\<rparr> else profile);
          profile = (if includes_str lowerText ''essay'' \<or> includes_str lowerText ''prompt''
                        \<or> includes_str lowerText ''question''
                     then profile\<lparr>essayPrompts := Some [text]\<rparr> else profile);
          profile = (if includes_str lowerText ''extracurricular'' \<or> includes_str lowerText ''activity''
                        \<or> includes_str lowerText ''club'' \<or> includes_str lowerText ''volunteer''
                        \<or> includes_str lowerText ''leadership''
                     then profile\<lparr>extracurriculars := Some [text]\<rparr> else profile);
          profile = (if includes_str lowerText ''class'' \<or> includes_str lowerText ''course''
                        \<or> includes_str lowerText ''ap '' \<or> includes_str lowerText ''honors''
                        \<or> includes_str lowerText ''ib ''
                     then profile\<lparr>classes := Some [text]\<rparr> else profile);
          profile = (if includes_str lowerText ''hobby'' \<or> includes_str lowerText ''interest''
                        \<or> includes_str lowerText ''passion'' \<or> includes_str lowerText ''enjoy''
                        \<or> includes_str lowerText ''love''
                     then profile\<lparr>hobbies := Some [text]\<rparr> else profile);
          profile = (if includes_str lowerText ''award'' \<or> includes_str lowerText ''recognition''
                        \<or> includes_str lowerText ''achievement'' \<or> includes_str lowerText ''honor''
                        \<or> includes_str lowerText ''prize''
                     then profile\<lparr>awards := Some [text]\<rparr> else profile)
      in profile)"

section \<open>Profile store\<close>

text \<open>
  The value read by \<^verbatim>\<open>profile[field]\<close> for one of the seven keys: a string, an array
  or \<^verbatim>\<open>undefined\<close> (\<open>None\<close>).
\<close>

datatype Field = Major | Colleges | EssayPrompts | Extracurriculars | Classes | Hobbies | Awards

datatype FieldValue = Str string | Arr "string list"

fun getField :: "'n Profile \<Rightarrow> Field \<Rightarrow> FieldValue option" where
  "getField p Major = map_option Str (major p)"
| "getField p Colleges = map_option Arr (colleges p)"
| "getField p EssayPrompts = map_option Arr (essayPrompts p)"
| "getField p Extracurriculars = map_option Arr (extracurriculars p)"
| "getField p Classes = map_option Arr (classes p)"
| "getField p Hobbies = map_option Arr (hobbies p)"
| "getField p Awards = map_option Arr (awards p)"

definition fieldKeys :: "Field list" where
  "fieldKeys = [Major, Colleges, EssayPrompts, Extracurriculars, Classes, Hobbies, Awards]"

text \<open>
  The filter predicate of \<^verbatim>\<open>calculateCompleteness\<close>:
  \<^verbatim>\<open>value && (typeof value === 'string' ? value.length > 0 : Array.isArray(value) && value.length > 0)\<close>.
\<close>

fun completed :: "FieldValue option \<Rightarrow> bool" where
  "completed None = False"
| "completed (Some (Str s)) = (s \<noteq> [] \<and> length s > 0)"
| "completed (Some (Arr xs)) = (length xs > 0)"

text \<open>
  \<^verbatim>\<open>Math.round\<close> rounds to the nearest integer, a half towards plus infinity. The
  quotient is taken in the rationals: the eight values it takes here are at least
  \<open>1/14\<close> away from a half, far more than the error of the double-precision quotient.
\<close>

definition Math_round :: "rat \<Rightarrow> int" where
  "Math_round x = \<lfloor>x + 1 / 2\<rfloor>"

definition completedFields :: "'n Profile \<Rightarrow> Field list" where
  "completedFields profile = filter (\<lambda>field. completed (getField profile field)) fieldKeys"

definition calculateCompleteness :: "'n Profile \<Rightarrow> int" where
  "calculateCompleteness profile =
     Math_round ((of_nat (length (completedFields profile)) / of_nat (length fieldKeys)) * 100)"

section \<open>Stage selector\<close>

definition getConversationStage :: "UserProfile \<Rightarrow> Stage" where
  "getConversationStage profile =
     (if completeness profile < 60 then Collection
      else if completeness profile \<ge> 60 then Generation
      else Refinement)"

section \<open>Merging the classifier output\<close>

text \<open>
  The merge loop of \<^verbatim>\<open>handleSubmit\<close> over the keys of the classifier output. A key
  whose value is falsy (absent, the empty string, the number 0) is skipped; an array is
  appended to the stored array (or to \<^verbatim>\<open>[]\<close> when none is stored), any other value
  replaces the stored one.
\<close>

fun mergeArray :: "string list option \<Rightarrow> string list option \<Rightarrow> string list option" where
  "mergeArray old None = old"
| "mergeArray old (Some xs) = Some ((case old of None \<Rightarrow> [] | Some ys \<Rightarrow> ys) @ xs)"

fun mergeString :: "string option \<Rightarrow> string option \<Rightarrow> string option" where
  "mergeString old None = old"
| "mergeString old (Some t) = (if t = [] then old else Some t)"

fun mergeNumber :: "int \<Rightarrow> int option \<Rightarrow> int" where
  "mergeNumber old None = old"
| "mergeNumber old (Some c) = (if c = 0 then old else c)"

definition mergeExtracted :: "UserProfile \<Rightarrow> PartialUserProfile \<Rightarrow> UserProfile" where
  "mergeExtracted userProfile extractedInfo =
     \<lparr>major = mergeString (major userProfile) (major extractedInfo),
      colleges = mergeArray (colleges userProfile) (colleges extractedInfo),
      essayPrompts = mergeArray (essayPrompts userProfile) (essayPrompts extractedInfo),
      extracurriculars = mergeArray (extracurriculars userProfile) (extracurriculars extractedInfo),
      classes = mergeArray (classes userProfile) (classes extractedInfo),
      hobbies = mergeArray (hobbies userProfile) (hobbies extractedInfo),
      awards = mergeArray (awards userProfile) (awards extractedInfo),
      completeness = mergeNumber (completeness userProfile) (completeness extractedInfo)\<rparr>"

text \<open>The merge followed by \<^verbatim>\<open>updatedProfile.completeness = calculateCompleteness(updatedProfile)\<close>.\<close>

definition updateProfile :: "UserProfile \<Rightarrow> PartialUserProfile \<Rightarrow> UserProfile" where
  "updateProfile userProfile extractedInfo =
     (let updatedProfile = mergeExtracted userProfile extractedInfo
      in updatedProfile\<lparr>completeness := calculateCompleteness updatedProfile\<rparr>)"

section \<open>Attachment resolver\<close>

record File =
  name :: string
  bytes :: string

datatype error = Error string

text \<open>
  The loop over the attached files. \<open>extractFromBlob\<close> is the external extraction
  service: \<open>Inr\<close> the extracted text, \<open>Inl\<close> when the call throws, which the
  inner \<^verbatim>\<open>catch\<close> turns into a note.
\<close>

fun attachmentLoop :: "(File \<Rightarrow> error + string) \<Rightarrow> File list \<Rightarrow> string \<Rightarrow> string" where
  "attachmentLoop extractFromBlob [] attachmentContext = attachmentContext"
| "attachmentLoop extractFromBlob (file # files) attachmentContext =
     attachmentLoop extractFromBlob files
       (case extractFromBlob file of
          Inr extractedText \<Rightarrow>
            attachmentContext @ ''\<newline>\<newline>Content from '' @ name file @ '':\<newline>'' @ extractedText
        | Inl e \<Rightarrow>
            attachmentContext @ ''\<newline>\<newline>Note: Could not process '' @ name file)"

definition processAttachments :: "(File \<Rightarrow> error + string) \<Rightarrow> File list \<Rightarrow> string" where
  "processAttachments extractFromBlob attachedFiles =
     (if length attachedFiles > 0 then attachmentLoop extractFromBlob attachedFiles [] else [])"

section \<open>Prompt assembler\<close>

text \<open>\<^verbatim>\<open>v || 'Not specified'\<close>: the default replaces an absent and an empty string.\<close>

fun orNotSpecified :: "string option \<Rightarrow> string" where
  "orNotSpecified None = ''Not specified''"
| "orNotSpecified (Some s) = (if s = [] then ''Not specified'' else s)"

fun stageName :: "Stage \<Rightarrow> string" where
  "stageName Collection = ''collection''"
| "stageName Generation = ''generation''"
| "stageName Refinement = ''refinement''"

text \<open>
  The profile snapshot is a template literal: the list of its literal runs and
  substitutions, in order, and their concatenation.
\<close>

definition profileContextParts :: "UserProfile \<Rightarrow> Stage \<Rightarrow> string list" where
  "profileContextParts updatedProfile conversationStage =
     [''\<newline>'', ''Current User Profile:\<newline>'', ''- Major: '',
      orNotSpecified (major updatedProfile), ''\<newline>'', ''- Target Colleges: '',
      orNotSpecified (map_option (join '', '') (colleges updatedProfile)), ''\<newline>'',
      ''- Essay Prompts: '',
      orNotSpecified (map_option (join ''; '') (essayPrompts updatedProfile)), ''\<newline>'',
      ''- Extracurriculars: '',
      orNotSpecified (map_option (join '', '') (extracurriculars updatedProfile)),
      ''\<newline>'', ''- Classes: '',
      orNotSpecified (map_option (join '', '') (classes updatedProfile)), ''\<newline>'',
      ''- Hobbies: '', orNotSpecified (map_option (join '', '') (hobbies updatedProfile)),
      ''\<newline>'', ''- Awards: '',
      orNotSpecified (map_option (join '', '') (awards updatedProfile)), ''\<newline>'',
      ''- Profile Completeness: '', toString (completeness updatedProfile), ''%\<newline>'',
      ''- Conversation Stage: '', stageName conversationStage, ''\<newline>'']"

definition profileContext :: "UserProfile \<Rightarrow> Stage \<Rightarrow> string" where
  "profileContext updatedProfile conversationStage =
     concat (profileContextParts updatedProfile conversationStage)"

definition collectionTask :: string where
  "collectionTask =
     ''Your current task is to:\<newline>''
     @ ''1. Acknowledge what the user has shared\<newline>''
     @ ''2. Identify what key information is still missing\<newline>''
     @ ''3. Ask thoughtful follow-up questions to gather more details\<newline>''
     @ ''4. Be encouraging and show how their experiences connect\<newline>'' @ ''\<newline>''
     @ ''Focus on collecting comprehensive information about their major, target colleges, essay prompts, extracurriculars, classes, hobbies, and awards. Ask specific, engaging questions that help them reflect on their experiences.\<newline>''
     @ ''\<newline>''"

text \<open>The constant run of the generation template, as the list of its lines.\<close>

definition generationSectionsParts :: "string list" where
  "generationSectionsParts =
     [''% complete). Now generate a comprehensive narrative roadmap that includes:\<newline>'',
      ''\<newline>'',
      ''## '',
      [CHR 0xF0, CHR 0x9F, CHR 0x8E, CHR 0xAF],
      '' NARRATIVE THEMES\<newline>'',
      ''Identify 2-3 overarching themes that connect their experiences\<newline>'',
      ''\<newline>'',
      ''## '',
      [CHR 0xF0, CHR 0x9F, CHR 0x94, CHR 0x97],
      '' CONNECTION MATRIX  \<newline>'',
      ''Show how their major, extracurriculars, classes, hobbies, and awards interconnect\<newline>'',
      ''\<newline>'',
      ''## '',
      [CHR 0xF0, CHR 0x9F, CHR 0x93, CHR 0x9A],
      '' COLLEGE-SPECIFIC STRATEGIES\<newline>'',
      ''For each target college, provide:\<newline>'',
      ''- Why they're a perfect fit\<newline>'',
      ''- How to position their unique story\<newline>'',
      ''- Key points to emphasize\<newline>'',
      ''\<newline>'',
      ''## '',
      [CHR 0xE2, CHR 0x9C, CHR 0x8D, CHR 0xEF, CHR 0xB8, CHR 0x8F],
      '' ESSAY ROADMAP\<newline>'',
      ''For each essay prompt:\<newline>'',
      ''- Suggested approach and angle\<newline>'',
      ''- Specific experiences to highlight\<newline>'',
      ''- How to weave in their themes\<newline>'',
      ''\<newline>'',
      ''## '',
      [CHR 0xF0, CHR 0x9F, CHR 0x92, CHR 0xA1],
      '' BRAINSTORMING IDEAS\<newline>'',
      ''- Unique angles they haven't considered\<newline>'',
      ''- Stories that showcase growth and impact\<newline>'',
      ''- Ways to demonstrate intellectual curiosity\<newline>'',
      ''\<newline>'',
      ''## '',
      [CHR 0xF0, CHR 0x9F, CHR 0x9A, CHR 0x80],
      '' ACTION PLAN\<newline>'',
      ''Concrete next steps for their application strategy\<newline>'',
      ''\<newline>'',
      ''Be specific, insightful, and strategic. Help them see the compelling narrative that emerges from their experiences.\<newline>'',
      ''\<newline>'']"

definition generationSections :: string where
  "generationSections = concat generationSectionsParts"

definition collectionIntro :: string where
  "collectionIntro =
     ''You are StoryMode AI, a college application narrative assistant. You're currently in the INFORMATION COLLECTION stage.\<newline>''"

definition generationIntro :: string where
  "generationIntro =
     ''You are StoryMode AI, a college application narrative assistant. You're now in the NARRATIVE GENERATION stage.\<newline>''"

definition refinementIntro :: string where
  "refinementIntro =
     ''You are StoryMode AI in REFINEMENT mode. Help the user polish and refine their narrative strategy based on their feedback.\<newline>''"

text \<open>The last line of each of the three templates.\<close>

definition latestMessage :: "string \<Rightarrow> string \<Rightarrow> string" where
  "latestMessage input attachmentContext = ''User's latest message: '' @ input @ attachmentContext"

text \<open>
  The three branches of the prompt template. \<open>collectionIntro\<close>, \<open>collectionTask\<close>,
  \<open>generationIntro\<close>, \<open>generationSections\<close> and \<open>refinementIntro\<close> are the
  constant runs of text of the templates.
\<close>

definition buildSystemPrompt :: "Stage \<Rightarrow> UserProfile \<Rightarrow> string \<Rightarrow> string \<Rightarrow> string" where
  "buildSystemPrompt conversationStage updatedProfile input attachmentContext =
     (if conversationStage = Collection then
        collectionIntro @ ''\<newline>''
        @ profileContext updatedProfile conversationStage @ ''\<newline>'' @ ''\<newline>''
        @ collectionTask
        @ latestMessage input attachmentContext
      else if conversationStage = Generation then
        generationIntro @ ''\<newline>''
        @ profileContext updatedProfile conversationStage @ ''\<newline>'' @ ''\<newline>''
        @ ''The user has provided sufficient information (''
        @ toString (completeness updatedProfile)
        @ generationSections
        @ latestMessage input attachmentContext
      else
        refinementIntro @ ''\<newline>''
        @ profileContext updatedProfile conversationStage @ ''\<newline>'' @ ''\<newline>''
        @ latestMessage input attachmentContext)"

section \<open>Messages and the response streamer\<close>

datatype Role = User | Assistant

record Message =
  message_id :: string
  role :: Role
  content :: string
  timestamp :: nat
  attachments :: "File list option"

text \<open>
  The chunk callback: the chunk is appended to the local \<^verbatim>\<open>assistantResponse\<close>, and
  every message of the list that carries the assistant message's id gets the
  accumulated text as its content. State updates take effect in the order in which
  they are issued.
\<close>

definition onChunk :: "string \<Rightarrow> string \<times> Message list \<Rightarrow> string \<Rightarrow> string \<times> Message list" where
  "onChunk assistantId st chunk =
     (let assistantResponse = fst st @ chunk
      in (assistantResponse,
          map (\<lambda>msg. if message_id msg = assistantId
                     then msg\<lparr>content := assistantResponse\<rparr> else msg) (snd st)))"

text \<open>The stream calls the callback once per chunk, in the order of arrival.\<close>

definition runStream :: "string \<Rightarrow> Message list \<Rightarrow> string list \<Rightarrow> string \<times> Message list" where
  "runStream assistantId msgs chunks = foldl (onChunk assistantId) ([], msgs) chunks"

section \<open>A conversation turn\<close>

record StreamRequest =
  prompt :: string
  model :: string
  maxTokens :: nat

text \<open>
  The state of the component. \<open>toasts\<close> is what was handed to the notification
  sink and \<open>requests\<close> what was handed to the generation service, oldest first.
\<close>

record Toast =
  title :: string
  description :: string
  variant :: "string option"

record ChatState =
  messages :: "Message list"
  input :: string
  isLoading :: bool
  attachedFiles :: "File list"
  userProfile :: UserProfile
  toasts :: "Toast list"
  requests :: "StreamRequest list"

text \<open>
  What the outside world does during one turn: the extraction service, the generation
  service (the chunks it delivers for a request, and the error it ends with, if any),
  and the four readings of the clock.
\<close>

record Services =
  extractFromBlob :: "File \<Rightarrow> error + string"
  streamText :: "StreamRequest \<Rightarrow> string list \<times> error option"
  dateNow1 :: nat
  newDate1 :: nat
  dateNow2 :: nat
  newDate2 :: nat

definition welcomeMessage :: string where
  "welcomeMessage =
     ''Welcome to StoryMode AI! '' @ [CHR 0xF0, CHR 0x9F, CHR 0x8E, CHR 0x93]
     @ '' I'm here to help you craft a compelling narrative for your college applications.\<newline>''
     @ ''\<newline>''
     @ ''To get started, I'll need to learn about you. Please share:\<newline>''
     @ ''\<newline>'' @ [CHR 0xF0, CHR 0x9F, CHR 0x93, CHR 0x9A]
     @ '' **Intended Major** - What field do you want to study?\<newline>''
     @ [CHR 0xF0, CHR 0x9F, CHR 0x8F, CHR 0xAB]
     @ '' **Target Colleges** - Which schools are you applying to?\<newline>''
     @ [CHR 0xF0, CHR 0x9F, CHR 0x93, CHR 0x9D]
     @ '' **Essay Prompt** - What specific prompt are you working on?\<newline>''
     @ [CHR 0xF0, CHR 0x9F, CHR 0x8F, CHR 0x85]
     @ '' **Extracurriculars** - Your activities, leadership roles, volunteering\<newline>''
     @ [CHR 0xF0, CHR 0x9F, CHR 0x93, CHR 0x96]
     @ '' **Classes** - Relevant coursework that showcases your interests\<newline>''
     @ [CHR 0xF0, CHR 0x9F, CHR 0x8E, CHR 0xA8]
     @ '' **Hobbies** - Personal interests and passions\<newline>''
     @ [CHR 0xF0, CHR 0x9F, CHR 0x8F, CHR 0x86]
     @ '' **Awards** - Recognition and achievements\<newline>'' @ ''\<newline>''
     @ ''You can share this information in any order, and feel free to attach documents like transcripts, activity lists, or draft essays. I'll help you weave these elements into a cohesive narrative that showcases your unique story!''"

definition initialState :: "nat \<Rightarrow> ChatState" where
  "initialState newDate0 =
     \<lparr>messages = [\<lparr>message_id = ''1'', role = Assistant, content = welcomeMessage,
                    timestamp = newDate0, attachments = None\<rparr>],
      input = [], isLoading = False, attachedFiles = [],
      userProfile = initialProfile, toasts = [], requests = []\<rparr>"

definition handleFileAttach :: "File list \<Rightarrow> ChatState \<Rightarrow> ChatState" where
  "handleFileAttach files s =
     (if length files > 0
      then s\<lparr>attachedFiles := attachedFiles s @ files,
             toasts := toasts s @
               [\<lparr>title = ''Files attached'',
                 description = toString (int (length files)) @ '' file(s) ready to upload'',
                 variant = None\<rparr>]\<rparr>
      else s)"

definition removeAttachment :: "nat \<Rightarrow> ChatState \<Rightarrow> ChatState" where
  "removeAttachment index s =
     s\<lparr>attachedFiles := map snd (filter (\<lambda>(i, f). i \<noteq> index) (enumerate 0 (attachedFiles s)))\<rparr>"

definition setInput :: "string \<Rightarrow> ChatState \<Rightarrow> ChatState" where
  "setInput text s = s\<lparr>input := text\<rparr>"

definition errorToast :: Toast where
  "errorToast =
     \<lparr>title = ''Error'', description = ''Failed to generate response. Please try again.'',
      variant = Some ''destructive''\<rparr>"

definition handleSubmit :: "Services \<Rightarrow> ChatState \<Rightarrow> ChatState" where
  "handleSubmit env s =
     (if trim (input s) = [] \<and> length (attachedFiles s) = 0 then s
      else
        let userMessage =
              \<lparr>message_id = toString (int (dateNow1 env)), role = User, content = input s,
               timestamp = newDate1 env,
               attachments = (if length (attachedFiles s) > 0 then Some (attachedFiles s) else None)\<rparr>;
            messages1 = messages s @ [userMessage];
            extractedInfo = analyzeUserInput (input s);
            updatedProfile = updateProfile (userProfile s) extractedInfo;
            attachmentContext = processAttachments (extractFromBlob env) (attachedFiles s);
            conversationStage = getConversationStage updatedProfile;
            systemPrompt = buildSystemPrompt conversationStage updatedProfile (input s) attachmentContext;
            assistantMessage =
              \<lparr>message_id = toString (int (dateNow2 env) + 1), role = Assistant, content = [],
               timestamp = newDate2 env, attachments = None\<rparr>;
            messages2 = messages1 @ [assistantMessage];
            request = \<lparr>prompt = systemPrompt, model = ''gpt-4o-mini'', maxTokens = 2000\<rparr>;
            outcome = streamText env request;
            streamed = runStream (message_id assistantMessage) messages2 (fst outcome)
        in \<lparr>messages = snd streamed, input = [], isLoading = False, attachedFiles = [],
            userProfile = updatedProfile,
            toasts = toasts s @ (case snd outcome of None \<Rightarrow> [] | Some e \<Rightarrow> [errorToast]),
            requests = requests s @ [request]\<rparr>)"

text \<open>The states the component can be in: the initial one, and what the handlers make of them.\<close>

inductive reachable :: "ChatState \<Rightarrow> bool" where
  reachable_init: "reachable (initialState newDate0)"
| reachable_input: "reachable s \<Longrightarrow> reachable (setInput text s)"
| reachable_attach: "reachable s \<Longrightarrow> reachable (handleFileAttach files s)"
| reachable_remove: "reachable s \<Longrightarrow> reachable (removeAttachment index s)"
| reachable_submit: "reachable s \<Longrightarrow> reachable (handleSubmit env s)"

code_pred reachable .

section \<open>The specification's notions\<close>

text \<open>
  A field is populated when it holds a non-empty text (\<open>major\<close>) or a non-empty
  sequence (the six list fields).
\<close>

fun populated :: "'n Profile \<Rightarrow> Field \<Rightarrow> bool" where
  "populated p Major = (case major p of None \<Rightarrow> False | Some s \<Rightarrow> s \<noteq> [])"
| "populated p Colleges = (case colleges p of None \<Rightarrow> False | Some xs \<Rightarrow> xs \<noteq> [])"
| "populated p EssayPrompts = (case essayPrompts p of None \<Rightarrow> False | Some xs \<Rightarrow> xs \<noteq> [])"
| "populated p Extracurriculars = (case extracurriculars p of None \<Rightarrow> False | Some xs \<Rightarrow> xs \<noteq> [])"
| "populated p Classes = (case classes p of None \<Rightarrow> False | Some xs \<Rightarrow> xs \<noteq> [])"
| "populated p Hobbies = (case hobbies p of None \<Rightarrow> False | Some xs \<Rightarrow> xs \<noteq> [])"
| "populated p Awards = (case awards p of None \<Rightarrow> False | Some xs \<Rightarrow> xs \<noteq> [])"

definition populatedCount :: "'n Profile \<Rightarrow> nat" where
  "populatedCount p =
     of_bool (populated p Major) + of_bool (populated p Colleges)
     + of_bool (populated p EssayPrompts) + of_bool (populated p Extracurriculars)
     + of_bool (populated p Classes) + of_bool (populated p Hobbies)
     + of_bool (populated p Awards)"

text \<open>Rounding to the nearest integer, a tie going up.\<close>

definition roundHalfUp :: "rat \<Rightarrow> int" where
  "roundHalfUp x = (if frac x < 1 / 2 then \<lfloor>x\<rfloor> else \<lceil>x\<rceil>)"

definition specCompleteness :: "'n Profile \<Rightarrow> int" where
  "specCompleteness p = roundHalfUp (100 * of_nat (populatedCount p) / 7)"

text \<open>The trigger words of each field, and what it means for a text to trigger a field.\<close>

fun triggerWords :: "Field \<Rightarrow> string list" where
  "triggerWords Major = [''major'', ''study'', ''field'']"
| "triggerWords Colleges = [''college'', ''university'', ''school'']"
| "triggerWords EssayPrompts = [''essay'', ''prompt'', ''question'']"
| "triggerWords Extracurriculars = [''extracurricular'', ''activity'', ''club'', ''volunteer'', ''leadership'']"
| "triggerWords Classes = [''class'', ''course'', ''ap '', ''honors'', ''ib '']"
| "triggerWords Hobbies = [''hobby'', ''interest'', ''passion'', ''enjoy'', ''love'']"
| "triggerWords Awards = [''award'', ''recognition'', ''achievement'', ''honor'', ''prize'']"

definition triggered :: "Field \<Rightarrow> string \<Rightarrow> bool" where
  "triggered f text = (\<exists>k \<in> set (triggerWords f). sublist k (toLowerCase text))"

fun fragment :: "Field \<Rightarrow> string \<Rightarrow> FieldValue" where
  "fragment Major text = Str text"
| "fragment f text = Arr [text]"

definition noKeyword :: "string \<Rightarrow> bool" where
  "noKeyword text = (\<forall>f \<in> set fieldKeys. \<not> triggered f text)"

text \<open>
  The sequence a field holds, \<^verbatim>\<open>profile[field] || []\<close>. A merge appends to it.
\<close>

fun orEmpty :: "'a list option \<Rightarrow> 'a list" where
  "orEmpty None = []"
| "orEmpty (Some xs) = xs"

text \<open>The message list after the \<open>n\<close>-th call of the chunk callback.\<close>

definition published :: "string \<Rightarrow> Message list \<Rightarrow> string list \<Rightarrow> nat \<Rightarrow> Message list" where
  "published assistantId msgs chunks n = snd (runStream assistantId msgs (take n chunks))"

text \<open>
  The block one attachment contributes to the context: its extracted text under its
  file name, or the note that it could not be processed.
\<close>

definition attachmentBlock :: "(File \<Rightarrow> error + string) \<Rightarrow> File \<Rightarrow> string" where
  "attachmentBlock extract file =
     (case extract file of
        Inr extractedText \<Rightarrow> ''\<newline>\<newline>Content from '' @ name file @ '':\<newline>'' @ extractedText
      | Inl e \<Rightarrow> ''\<newline>\<newline>Note: Could not process '' @ name file)"

text \<open>
  The line of the snapshot for one field: its label, then the field's text, or
  "Not specified" when that text is empty.
\<close>

fun fieldLabel :: "Field \<Rightarrow> string" where
  "fieldLabel Major = ''- Major: ''"
| "fieldLabel Colleges = ''- Target Colleges: ''"
| "fieldLabel EssayPrompts = ''- Essay Prompts: ''"
| "fieldLabel Extracurriculars = ''- Extracurriculars: ''"
| "fieldLabel Classes = ''- Classes: ''"
| "fieldLabel Hobbies = ''- Hobbies: ''"
| "fieldLabel Awards = ''- Awards: ''"

fun fieldText :: "UserProfile \<Rightarrow> Field \<Rightarrow> string" where
  "fieldText p Major = (case major p of None \<Rightarrow> [] | Some s \<Rightarrow> s)"
| "fieldText p Colleges = join '', '' (orEmpty (colleges p))"
| "fieldText p EssayPrompts = join ''; '' (orEmpty (essayPrompts p))"
| "fieldText p Extracurriculars = join '', '' (orEmpty (extracurriculars p))"
| "fieldText p Classes = join '', '' (orEmpty (classes p))"
| "fieldText p Hobbies = join '', '' (orEmpty (hobbies p))"
| "fieldText p Awards = join '', '' (orEmpty (awards p))"

definition renderedField :: "UserProfile \<Rightarrow> Field \<Rightarrow> string" where
  "renderedField p f =
     fieldLabel f @ (if fieldText p f = [] then ''Not specified'' else fieldText p f) @ ''\<newline>''"

text \<open>The six named sections of the generation stage, each with the line that opens it.\<close>

definition sectionInstructions :: "string list" where
  "sectionInstructions =
     [''## '' @ [CHR 0xF0, CHR 0x9F, CHR 0x8E, CHR 0xAF]
        @ '' NARRATIVE THEMES\<newline>''
        @ ''Identify 2-3 overarching themes that connect their experiences\<newline>'',
      ''## '' @ [CHR 0xF0, CHR 0x9F, CHR 0x94, CHR 0x97]
        @ '' CONNECTION MATRIX  \<newline>''
        @ ''Show how their major, extracurriculars, classes, hobbies, and awards interconnect\<newline>'',
      ''## '' @ [CHR 0xF0, CHR 0x9F, CHR 0x93, CHR 0x9A]
        @ '' COLLEGE-SPECIFIC STRATEGIES\<newline>''
        @ ''For each target college, provide:\<newline>'',
      ''## '' @ [CHR 0xE2, CHR 0x9C, CHR 0x8D, CHR 0xEF, CHR 0xB8, CHR 0x8F]
        @ '' ESSAY ROADMAP\<newline>''
        @ ''For each essay prompt:\<newline>'',
      ''## '' @ [CHR 0xF0, CHR 0x9F, CHR 0x92, CHR 0xA1]
        @ '' BRAINSTORMING IDEAS\<newline>''
        @ ''- Unique angles they haven't considered\<newline>'',
      ''## '' @ [CHR 0xF0, CHR 0x9F, CHR 0x9A, CHR 0x80]
        @ '' ACTION PLAN\<newline>''
        @ ''Concrete next steps for their application strategy\<newline>'']"

section \<open>Example inputs\<close>

definition exampleServices :: Services where
  "exampleServices =
     \<lparr>extractFromBlob = (\<lambda>file. if name file = ''broken.pdf'' then Inl (Error ''unreadable'')
                                else Inr (bytes file)),
      streamText = (\<lambda>request. ([''Hel'', ''lo '', ''World''], None)),
      dateNow1 = 1000, newDate1 = 1000, dateNow2 = 1005, newDate2 = 1005\<rparr>"

section \<open>Rounding and counting\<close>

lemma includes_str_sublist: "includes_str t k \<longleftrightarrow> sublist k t"
  by (induction t) (auto simp: sublist_Cons_right)

lemma Math_round_roundHalfUp: "Math_round x = roundHalfUp x"
proof -
  define f where "f = \<lfloor>x\<rfloor>"
  have lo: "of_int f \<le> x" and hi: "x < of_int f + 1"
    unfolding f_def by linarith+
  have fr: "frac x = x - of_int f"
    unfolding f_def by (simp add: frac_def)
  show ?thesis
  proof (cases "frac x < 1 / 2")
    case True
    with fr have "x - of_int f < 1 / 2" by simp
    with lo have "\<lfloor>x + 1 / 2\<rfloor> = f"
      by (intro floor_unique) linarith+
    with True show ?thesis
      by (simp add: Math_round_def roundHalfUp_def f_def)
  next
    case False
    with fr have h: "1 / 2 \<le> x - of_int f" by simp
    have "\<lfloor>x + 1 / 2\<rfloor> = f + 1"
    proof (rule floor_unique)
      show "of_int (f + 1) \<le> x + 1 / 2" using h by simp
      show "x + 1 / 2 < of_int (f + 1) + 1" using hi by simp
    qed
    moreover have "\<lceil>x\<rceil> = f + 1"
    proof (rule ceiling_unique)
      show "of_int (f + 1) - 1 < x" using h by simp
      show "x \<le> of_int (f + 1)" using hi by simp
    qed
    ultimately show ?thesis using False
      by (simp add: Math_round_def roundHalfUp_def)
  qed
qed

lemma Math_round_percent: "Math_round (of_nat n / of_nat 7 * 100) = (200 * int n + 7) div 14"
proof -
  have "(of_nat n / of_nat 7 * 100 + 1 / 2 :: rat) = of_int (200 * int n + 7) / of_int 14"
    by (simp add: field_simps)
  then show ?thesis
    unfolding Math_round_def by (simp only: floor_divide_of_int_eq)
qed

lemma completed_getField: "completed (getField p f) = populated p f"
  by (cases f) (auto split: option.splits)

lemma length_filter_Cons: "length (filter P (x # xs)) = of_bool (P x) + length (filter P xs)"
  by simp

lemma length_completedFields: "length (completedFields p) = populatedCount p"
  unfolding completedFields_def fieldKeys_def populatedCount_def completed_getField
  by (simp only: length_filter_Cons filter.simps(1) list.size(3) add_0_right add.assoc)

lemma length_completedFields_le: "length (completedFields p) \<le> 7"
  unfolding completedFields_def
  by (rule order_trans [OF length_filter_le]) (simp add: fieldKeys_def)

lemma calculateCompleteness_spec: "calculateCompleteness p = specCompleteness p"
  unfolding calculateCompleteness_def specCompleteness_def length_completedFields Math_round_roundHalfUp
  by (simp add: fieldKeys_def mult.commute)

lemma percent_values:
  assumes "n \<le> 7"
  shows "(200 * int n + 7) div 14 \<in> {0, 14, 29, 43, 57, 71, 86, 100}"
proof -
  from assms consider "n = 0" | k where "n = Suc k" "k < 7"
    by (cases n) auto
  then show ?thesis
    by cases (auto simp: less_Suc_eq numeral_eq_Suc)
qed

lemma calculateCompleteness_values: "calculateCompleteness p \<in> {0, 14, 29, 43, 57, 71, 86, 100}"
proof -
  have "calculateCompleteness p = (200 * int (length (completedFields p)) + 7) div 14"
    unfolding calculateCompleteness_def using Math_round_percent [of "length (completedFields p)"]
    by (simp add: fieldKeys_def)
  with percent_values [OF length_completedFields_le [of p]] show ?thesis by simp
qed

lemma getField_completeness_update [simp]:
  "getField (p\<lparr>completeness := c\<rparr>) f = getField p f"
  by (cases f) simp_all

lemma completedFields_completeness_update [simp]:
  "completedFields (p\<lparr>completeness := c\<rparr>) = completedFields p"
  unfolding completedFields_def by (simp only: getField_completeness_update)

lemma calculateCompleteness_completeness_update [simp]:
  "calculateCompleteness (p\<lparr>completeness := c\<rparr>) = calculateCompleteness p"
  by (simp add: calculateCompleteness_def)

lemma completeness_updateProfile:
  "completeness (updateProfile p e) = calculateCompleteness (updateProfile p e)"
  by (simp add: updateProfile_def Let_def)

lemma calculateCompleteness_initialProfile: "calculateCompleteness initialProfile = 0"
  by code_simp

lemma userProfile_handleSubmit:
  "userProfile (handleSubmit env s) =
     (if trim (input s) = [] \<and> attachedFiles s = [] then userProfile s
      else updateProfile (userProfile s) (analyzeUserInput (input s)))"
  by (simp add: handleSubmit_def Let_def)

lemma reachable_completeness:
  "reachable s \<Longrightarrow> completeness (userProfile s) = calculateCompleteness (userProfile s)"
proof (induction rule: reachable.induct)
  case (reachable_init d)
  show ?case by (simp add: initialState_def calculateCompleteness_initialProfile) (simp add: initialProfile_def)
next
  case (reachable_submit s env)
  then show ?case by (simp add: userProfile_handleSubmit completeness_updateProfile)
qed (simp_all add: setInput_def handleFileAttach_def removeAttachment_def)

section \<open>The classifier as a table\<close>

lemma if_update_fields:
  "(if c then r\<lparr>major := m\<rparr> else r) = r\<lparr>major := (if c then m else major r)\<rparr>"
  "(if c then r\<lparr>colleges := v\<rparr> else r) = r\<lparr>colleges := (if c then v else colleges r)\<rparr>"
  "(if c then r\<lparr>essayPrompts := v\<rparr> else r) = r\<lparr>essayPrompts := (if c then v else essayPrompts r)\<rparr>"
  "(if c then r\<lparr>extracurriculars := v\<rparr> else r) = r\<lparr>extracurriculars := (if c then v else extracurriculars r)\<rparr>"
  "(if c then r\<lparr>classes := v\<rparr> else r) = r\<lparr>classes := (if c then v else classes r)\<rparr>"
  "(if c then r\<lparr>hobbies := v\<rparr> else r) = r\<lparr>hobbies := (if c then v else hobbies r)\<rparr>"
  "(if c then r\<lparr>awards := v\<rparr> else r) = r\<lparr>awards := (if c then v else awards r)\<rparr>"
  by simp_all

lemma triggered_simps:
  "triggered Major text \<longleftrightarrow>
     includes_str (toLowerCase text) ''major'' \<or> includes_str (toLowerCase text) ''study''
     \<or> includes_str (toLowerCase text) ''field''"
  "triggered Colleges text \<longleftrightarrow>
     includes_str (toLowerCase text) ''college'' \<or> includes_str (toLowerCase text) ''university''
     \<or> includes_str (toLowerCase text) ''school''"
  "triggered EssayPrompts text \<longleftrightarrow>
     includes_str (toLowerCase text) ''essay'' \<or> includes_str (toLowerCase text) ''prompt''
     \<or> includes_str (toLowerCase text) ''question''"
  "triggered Extracurriculars text \<longleftrightarrow>
     includes_str (toLowerCase text) ''extracurricular'' \<or> includes_str (toLowerCase text) ''activity''
     \<or> includes_str (toLowerCase text) ''club'' \<or> includes_str (toLowerCase text) ''volunteer''
     \<or> includes_str (toLowerCase text) ''leadership''"
  "triggered Classes text \<longleftrightarrow>
     includes_str (toLowerCase text) ''class'' \<or> includes_str (toLowerCase text) ''course''
     \<or> includes_str (toLowerCase text) ''ap '' \<or> includes_str (toLowerCase text) ''honors''
     \<or> includes_str (toLowerCase text) ''ib ''"
  "triggered Hobbies text \<longleftrightarrow>
     includes_str (toLowerCase text) ''hobby'' \<or> includes_str (toLowerCase text) ''interest''
     \<or> includes_str (toLowerCase text) ''passion'' \<or> includes_str (toLowerCase text) ''enjoy''
     \<or> includes_str (toLowerCase text) ''love''"
  "triggered Awards text \<longleftrightarrow>
     includes_str (toLowerCase text) ''award'' \<or> includes_str (toLowerCase text) ''recognition''
     \<or> includes_str (toLowerCase text) ''achievement'' \<or> includes_str (toLowerCase text) ''honor''
     \<or> includes_str (toLowerCase text) ''prize''"
  unfolding triggered_def includes_str_sublist by simp_all

lemma analyzeUserInput_record:
  "analyzeUserInput text =
     \<lparr>major = (if triggered Major text then Some text else None),
      colleges = (if triggered Colleges text then Some [text] else None),
      essayPrompts = (if triggered EssayPrompts text then Some [text] else None),
      extracurriculars = (if triggered Extracurriculars text then Some [text] else None),
      classes = (if triggered Classes text then Some [text] else None),
      hobbies = (if triggered Hobbies text then Some [text] else None),
      awards = (if triggered Awards text then Some [text] else None),
      completeness = None\<rparr>"
  unfolding analyzeUserInput_def triggered_simps
  apply (simp only: if_update_fields)
  apply (simp only: Let_def)
  apply (simp add: emptyPartial_def split del: if_split cong: if_cong)
  done

lemma getField_analyzeUserInput:
  "getField (analyzeUserInput text) f = (if triggered f text then Some (fragment f text) else None)"
  unfolding analyzeUserInput_record by (cases f) simp_all


lemma set_fieldKeys: "f \<in> set fieldKeys"
  by (cases f) (simp_all add: fieldKeys_def)

lemma noKeyword_iff: "noKeyword text \<longleftrightarrow> (\<forall>f. \<not> triggered f text)"
  by (auto simp: noKeyword_def set_fieldKeys)

lemma analyzeUserInput_noKeyword: "noKeyword text \<Longrightarrow> analyzeUserInput text = emptyPartial"
  by (simp add: noKeyword_iff analyzeUserInput_record emptyPartial_def)

lemma triggerWords_letter:
  "k \<in> set (triggerWords f) \<Longrightarrow> k \<noteq> [] \<and> \<not> isWhitespace (hd k)"
  by (cases f) (auto simp: isWhitespace_def)

lemma toLowerChar_whitespace: "isWhitespace c \<Longrightarrow> toLowerChar c = c"
  by (auto simp: isWhitespace_def toLowerChar_def)

lemma whitespace_noKeyword:
  assumes "\<forall>c \<in> set text. isWhitespace c"
  shows "noKeyword text"
  unfolding noKeyword_iff triggered_def
proof (intro allI notI)
  fix f
  assume "\<exists>k \<in> set (triggerWords f). sublist k (toLowerCase text)"
  then obtain k where k: "k \<in> set (triggerWords f)" and sub: "sublist k (toLowerCase text)"
    by blast
  from triggerWords_letter [OF k] have ne: "k \<noteq> []" and nw: "\<not> isWhitespace (hd k)"
    by simp_all
  from ne have "hd k \<in> set k" by simp
  with set_mono_sublist [OF sub] have "hd k \<in> set (toLowerCase text)" by blast
  then obtain c where c: "c \<in> set text" and h: "hd k = toLowerChar c"
    by (auto simp: toLowerCase_def)
  from assms c have "isWhitespace c" by blast
  with toLowerChar_whitespace [of c] h nw show False by simp
qed

lemma find_whiteSpace:
  "find P whiteSpace = Some w \<Longrightarrow> P w \<and> w \<noteq> [] \<and> (\<forall>c \<in> set w. blankByte c)"
proof -
  assume "find P whiteSpace = Some w"
  then have m: "w \<in> set whiteSpace" and "P w"
    by (auto simp: find_Some_iff)
  moreover from m have "w \<noteq> []"
    by (auto simp: whiteSpace_def)
  moreover from m have "\<forall>c \<in> set w. blankByte c"
    unfolding blankByte_def by auto
  ultimately show ?thesis by blast
qed

lemma trimStart_blank:
  "\<forall>c \<in> set (trimStart s). blankByte c \<Longrightarrow> \<forall>c \<in> set s. blankByte c"
proof (induction s rule: trimStart.induct)
  case (1 s)
  show ?case
  proof (cases "find (\<lambda>w. prefix w s) whiteSpace")
    case None
    with "1.prems" show ?thesis
      by (simp add: trimStart.simps [of s])
  next
    case (Some w)
    from find_whiteSpace [OF Some] have p: "prefix w s" and b: "\<forall>c \<in> set w. blankByte c"
      by simp_all
    from "1.prems" Some have "\<forall>c \<in> set (trimStart (drop (length w) s)). blankByte c"
      by (simp add: trimStart.simps [of s])
    from "1.IH" [OF Some this] have "\<forall>c \<in> set (drop (length w) s). blankByte c" .
    moreover from p have "s = w @ drop (length w) s"
      by (auto simp: prefix_def)
    ultimately show ?thesis
      using b by (metis Un_iff set_append)
  qed
qed

lemma trimEnd_blank:
  "trimEnd s = [] \<Longrightarrow> \<forall>c \<in> set s. blankByte c"
proof (induction s rule: trimEnd.induct)
  case (1 s)
  show ?case
  proof (cases "find (\<lambda>w. suffix w s) whiteSpace")
    case None
    with "1.prems" show ?thesis
      by (simp add: trimEnd.simps [of s])
  next
    case (Some w)
    from find_whiteSpace [OF Some] have p: "suffix w s" and b: "\<forall>c \<in> set w. blankByte c"
      by simp_all
    from "1.prems" Some have "trimEnd (take (length s - length w) s) = []"
      by (simp add: trimEnd.simps [of s])
    from "1.IH" [OF Some this] have "\<forall>c \<in> set (take (length s - length w) s). blankByte c" .
    moreover from p have "s = take (length s - length w) s @ w"
      by (auto simp: suffix_def)
    ultimately show ?thesis
      using b by (metis Un_iff set_append)
  qed
qed

lemma trim_empty_blank: "trim s = [] \<Longrightarrow> \<forall>c \<in> set s. blankByte c"
  unfolding trim_def by (rule trimStart_blank) (simp add: trimEnd_blank)

lemma toLowerChar_blank: "blankByte c \<Longrightarrow> toLowerChar c = c"
  by (auto simp: blankByte_def whiteSpace_def toLowerChar_def)

lemma blank_not_lower:
  "blankByte c \<Longrightarrow> \<not> (97 \<le> (of_char c :: nat) \<and> (of_char c :: nat) \<le> 122)"
  by (auto simp: blankByte_def whiteSpace_def)

lemma triggerWords_lower:
  "k \<in> set (triggerWords f) \<Longrightarrow> 97 \<le> (of_char (hd k) :: nat) \<and> (of_char (hd k) :: nat) \<le> 122"
  by (cases f) auto

lemma triggerWords_not_blank:
  "k \<in> set (triggerWords f) \<Longrightarrow> \<not> blankByte (hd k)"
  using blank_not_lower [of "hd k"] triggerWords_lower [of k f] by blast

lemma blank_noKeyword:
  assumes "\<forall>c \<in> set text. blankByte c"
  shows "noKeyword text"
  unfolding noKeyword_iff triggered_def
proof (intro allI notI)
  fix f
  assume "\<exists>k \<in> set (triggerWords f). sublist k (toLowerCase text)"
  then obtain k where k: "k \<in> set (triggerWords f)" and sub: "sublist k (toLowerCase text)"
    by blast
  from triggerWords_letter [OF k] have "hd k \<in> set k"
    by simp
  with set_mono_sublist [OF sub] have "hd k \<in> set (toLowerCase text)"
    by blast
  then obtain c where c: "c \<in> set text" and h: "hd k = toLowerChar c"
    by (auto simp: toLowerCase_def)
  from assms c have "blankByte c"
    by blast
  with toLowerChar_blank [of c] h triggerWords_not_blank [OF k] show False
    by simp
qed

lemma trim_nonempty: "c \<in> set s \<Longrightarrow> \<not> blankByte c \<Longrightarrow> trim s \<noteq> []"
  using trim_empty_blank [of s] by blast

lemma letter_not_blank:
  "\<not> blankByte CHR ''h''" "\<not> blankByte CHR ''I''"
  by (simp_all add: blankByte_def whiteSpace_def)

lemma trim_empty_noKeyword: "trim s = [] \<Longrightarrow> noKeyword s"
  by (rule blank_noKeyword) (rule trim_empty_blank)

lemma mergeExtracted_emptyPartial: "mergeExtracted p emptyPartial = p"
  by (simp add: mergeExtracted_def emptyPartial_def)

lemma updateProfile_emptyPartial:
  "completeness p = calculateCompleteness p \<Longrightarrow> updateProfile p emptyPartial = p"
  by (simp add: updateProfile_def mergeExtracted_emptyPartial)

lemma userProfile_handleSubmit_reachable:
  assumes "reachable s"
  shows "userProfile (handleSubmit env (s\<lparr>attachedFiles := files\<rparr>)) =
         updateProfile (userProfile s) (analyzeUserInput (input s))"
proof (cases "trim (input s) = [] \<and> files = []")
  case True
  then have "analyzeUserInput (input s) = emptyPartial"
    by (simp add: trim_empty_noKeyword analyzeUserInput_noKeyword)
  with True reachable_completeness [OF assms] show ?thesis
    by (simp add: userProfile_handleSubmit updateProfile_emptyPartial)
next
  case False
  then show ?thesis
    by (auto simp: userProfile_handleSubmit)
qed

section \<open>The merge keeps what is there\<close>

lemma mergeArray_cases:
  "mergeArray old new = (case new of None \<Rightarrow> old | Some xs \<Rightarrow> Some (orEmpty old @ xs))"
  by (cases new; cases old) simp_all

lemma mergeString_cases:
  "mergeString old new = (case new of None \<Rightarrow> old | Some t \<Rightarrow> if t = [] then old else Some t)"
  by (cases new) simp_all

lemma prefix_mergeArray: "prefix (orEmpty old) (orEmpty (mergeArray old new))"
  by (cases new; cases old) simp_all

lemma populated_mergeExtracted:
  "populated p f \<Longrightarrow> populated (mergeExtracted p e) f"
  by (cases f)
     (auto simp: mergeExtracted_def mergeArray_cases mergeString_cases split: option.splits)

lemma getField_updateProfile [simp]:
  "getField (updateProfile p e) f = getField (mergeExtracted p e) f"
  by (simp add: updateProfile_def Let_def)

lemma populated_getField: "populated p f = completed (getField p f)"
  by (simp add: completed_getField)

lemma populated_updateProfile:
  "populated p f \<Longrightarrow> populated (updateProfile p e) f"
  by (simp add: populated_getField) (simp add: completed_getField populated_mergeExtracted)

lemma of_bool_mono: "(P \<Longrightarrow> Q) \<Longrightarrow> (of_bool P :: nat) \<le> of_bool Q"
  by (cases P) simp_all

lemma populatedCount_mono: "populatedCount p \<le> populatedCount (mergeExtracted p e)"
  unfolding populatedCount_def
  by (intro add_mono of_bool_mono populated_mergeExtracted)

lemma calculateCompleteness_count:
  "calculateCompleteness p = (200 * int (populatedCount p) + 7) div 14"
  unfolding calculateCompleteness_def length_completedFields
  using Math_round_percent [of "populatedCount p"] by (simp add: fieldKeys_def)

lemma calculateCompleteness_mono:
  "calculateCompleteness p \<le> calculateCompleteness (updateProfile p e)"
proof -
  have "calculateCompleteness (updateProfile p e) = calculateCompleteness (mergeExtracted p e)"
    by (simp add: updateProfile_def Let_def)
  moreover have "(200 * int (populatedCount p) + 7) div 14
      \<le> (200 * int (populatedCount (mergeExtracted p e)) + 7) div 14"
    using populatedCount_mono [of p e] by (intro zdiv_mono1) simp_all
  ultimately show ?thesis
    by (simp add: calculateCompleteness_count)
qed

lemma arrays_updateProfile:
  "colleges (updateProfile p e) = mergeArray (colleges p) (colleges e)"
  "essayPrompts (updateProfile p e) = mergeArray (essayPrompts p) (essayPrompts e)"
  "extracurriculars (updateProfile p e) = mergeArray (extracurriculars p) (extracurriculars e)"
  "classes (updateProfile p e) = mergeArray (classes p) (classes e)"
  "hobbies (updateProfile p e) = mergeArray (hobbies p) (hobbies e)"
  "awards (updateProfile p e) = mergeArray (awards p) (awards e)"
  "major (updateProfile p e) = mergeString (major p) (major e)"
  by (simp_all add: updateProfile_def Let_def mergeExtracted_def)

section \<open>Streams, attachments and templates\<close>

lemma message_id_content_update [simp]: "message_id (m\<lparr>content := c\<rparr>) = message_id m"
  by simp

lemma onChunk_pair:
  "onChunk aid (r, msgs) c =
     (r @ c, map (\<lambda>msg. if message_id msg = aid then msg\<lparr>content := r @ c\<rparr> else msg) msgs)"
  by (simp add: onChunk_def Let_def)

lemma foldl_onChunk:
  "foldl (onChunk aid) (r, msgs) cs =
     (r @ concat cs,
      if cs = [] then msgs
      else map (\<lambda>msg. if message_id msg = aid then msg\<lparr>content := r @ concat cs\<rparr> else msg) msgs)"
proof (induction cs arbitrary: r msgs)
  case Nil
  show ?case by simp
next
  case (Cons c cs)
  have "foldl (onChunk aid) (r, msgs) (c # cs) =
      foldl (onChunk aid)
        (r @ c, map (\<lambda>msg. if message_id msg = aid then msg\<lparr>content := r @ c\<rparr> else msg) msgs) cs"
    by (simp only: foldl_Cons onChunk_pair)
  also have "\<dots> = (r @ concat (c # cs),
      map (\<lambda>msg. if message_id msg = aid then msg\<lparr>content := r @ concat (c # cs)\<rparr> else msg) msgs)"
    unfolding Cons.IH by (cases "cs = []") (simp_all add: o_def if_distrib cong: if_cong)
  finally show ?case by simp
qed

lemma runStream_eq:
  "runStream aid msgs cs =
     (concat cs,
      if cs = [] then msgs
      else map (\<lambda>msg. if message_id msg = aid then msg\<lparr>content := concat cs\<rparr> else msg) msgs)"
  unfolding runStream_def by (simp only: foldl_onChunk append_Nil)

lemma last_published:
  "content (last (published aid (msgs @ [\<lparr>message_id = aid, role = rl, content = [], timestamp = t,
        attachments = att\<rparr>]) chunks n)) = concat (take n chunks)"
  by (simp add: published_def runStream_eq last_map)

lemma runStream_step:
  "n < length chunks \<Longrightarrow>
     runStream aid msgs (take (Suc n) chunks) = onChunk aid (runStream aid msgs (take n chunks)) (chunks ! n)"
  by (simp add: runStream_def take_Suc_conv_app_nth)

lemma attachmentLoop_eq:
  "attachmentLoop extract files ctx = ctx @ concat (map (attachmentBlock extract) files)"
  by (induction files arbitrary: ctx) (auto simp: attachmentBlock_def split: sum.splits)

lemma processAttachments_eq:
  "processAttachments extract files = concat (map (attachmentBlock extract) files)"
  by (simp add: processAttachments_def attachmentLoop_eq)

lemma requests_handleSubmit:
  "\<not> (trim (input s) = [] \<and> attachedFiles s = []) \<Longrightarrow>
     requests (handleSubmit env s) = requests s @
       [\<lparr>prompt = buildSystemPrompt (getConversationStage (userProfile (handleSubmit env s)))
            (userProfile (handleSubmit env s)) (input s)
            (processAttachments (extractFromBlob env) (attachedFiles s)),
         model = ''gpt-4o-mini'', maxTokens = 2000\<rparr>]"
  by (auto simp: handleSubmit_def Let_def)

lemma messages_handleSubmit:
  "\<not> (trim (input s) = [] \<and> attachedFiles s = []) \<Longrightarrow>
     messages (handleSubmit env s) =
       published (toString (int (dateNow2 env) + 1))
         ((messages s @
           [\<lparr>message_id = toString (int (dateNow1 env)), role = User, content = input s,
             timestamp = newDate1 env,
             attachments = (if length (attachedFiles s) > 0 then Some (attachedFiles s) else None)\<rparr>])
          @ [\<lparr>message_id = toString (int (dateNow2 env) + 1), role = Assistant, content = [],
              timestamp = newDate2 env, attachments = None\<rparr>])
         (fst (streamText env (last (requests (handleSubmit env s)))))
         (length (fst (streamText env (last (requests (handleSubmit env s))))))"
  by (auto simp: handleSubmit_def Let_def published_def)

lemma sublist_later: "sublist xs zs \<Longrightarrow> sublist xs (ys @ zs)"
  by (auto simp: sublist_append)

lemma sublist_concat_slice: "sublist (concat (take n (drop m ps))) (concat ps)"
proof -
  have "take m ps @ take n (drop m ps) @ drop n (drop m ps) = ps"
    by (simp only: append_take_drop_id)
  then have "concat ps = concat (take m ps) @ concat (take n (drop m ps)) @ concat (drop n (drop m ps))"
    by (metis concat_append)
  then show ?thesis
    by (simp only: sublist_appendI)
qed

lemma suffix_latestMessage:
  "suffix (latestMessage msg ctx) (buildSystemPrompt st p msg ctx)"
  unfolding buildSystemPrompt_def
  by (simp only: split: if_split) (intro conjI impI suffix_appendI suffix_order.refl)

lemma sublist_profileContext:
  "sublist (profileContext p st) (buildSystemPrompt st p msg ctx)"
  unfolding buildSystemPrompt_def
  by (simp only: split: if_split) (intro conjI impI sublist_append_rightI sublist_later)

lemma sublist_generationSections:
  "sublist generationSections (buildSystemPrompt Generation p msg ctx)"
  unfolding buildSystemPrompt_def
  by (simp only: Stage.distinct if_False if_True refl) (intro sublist_append_rightI sublist_later)

lemma orNotSpecified_join:
  "orNotSpecified (map_option (join sep) v) =
     (if join sep (orEmpty v) = [] then ''Not specified'' else join sep (orEmpty v))"
  by (cases v) simp_all

lemma orNotSpecified_major:
  "orNotSpecified (major p) =
     (if fieldText p Major = [] then ''Not specified'' else fieldText p Major)"
  by (cases "major p") simp_all

lemma renderedField_slice:
  "renderedField p Major = concat (take 3 (drop 2 (profileContextParts p st)))"
  "renderedField p Colleges = concat (take 3 (drop 5 (profileContextParts p st)))"
  "renderedField p EssayPrompts = concat (take 3 (drop 8 (profileContextParts p st)))"
  "renderedField p Extracurriculars = concat (take 3 (drop 11 (profileContextParts p st)))"
  "renderedField p Classes = concat (take 3 (drop 14 (profileContextParts p st)))"
  "renderedField p Hobbies = concat (take 3 (drop 17 (profileContextParts p st)))"
  "renderedField p Awards = concat (take 3 (drop 20 (profileContextParts p st)))"
  unfolding renderedField_def profileContextParts_def orNotSpecified_join orNotSpecified_major
  by simp_all

lemma completeness_slice:
  "''- Profile Completeness: '' @ toString (completeness p) @ ''%\<newline>''
     = concat (take 3 (drop 23 (profileContextParts p st)))"
  "''- Conversation Stage: '' @ stageName st @ ''\<newline>''
     = concat (take 3 (drop 26 (profileContextParts p st)))"
  unfolding profileContextParts_def by simp_all

lemma sublist_renderedField: "sublist (renderedField p f) (profileContext p st)"
  unfolding profileContext_def
  by (cases f) (simp_all only: renderedField_slice [of p st] sublist_concat_slice)

lemma renderedField_unpopulated:
  "\<not> populated p f \<Longrightarrow> renderedField p f = fieldLabel f @ ''Not specified'' @ ''\<newline>''"
  by (cases f) (auto simp: renderedField_def split: option.splits)

lemma sectionInstructions_slices:
  "sectionInstructions =
     map (\<lambda>m. concat (take 4 (drop m generationSectionsParts))) [2, 7, 12, 20, 28, 35]"
  by (simp add: sectionInstructions_def generationSectionsParts_def)

lemma sections_in_generationSections:
  assumes "h \<in> set sectionInstructions"
  shows "sublist h generationSections"
proof -
  from assms have "h \<in> (\<lambda>m. concat (take 4 (drop m generationSectionsParts))) ` set [2, 7, 12, 20, 28, 35]"
    by (simp only: sectionInstructions_slices set_map)
  then obtain m where "h = concat (take 4 (drop m generationSectionsParts))"
    by blast
  then show ?thesis
    by (simp only: generationSections_def sublist_concat_slice)
qed

section \<open>Stage selection\<close>

text \<open>
  C2. The stage selector returns \<open>collection\<close> exactly when the completeness is below
  60 and \<open>generation\<close> exactly when it is 60 or more; so 59 gives \<open>collection\<close>, 60
  gives \<open>generation\<close>, and \<open>refinement\<close> is never returned. This holds for every
  integer completeness, in particular for those from 0 to 100.
\<close>

theorem getConversationStage_threshold:
  "(getConversationStage p = Collection \<longleftrightarrow> completeness p < 60)
   \<and> (getConversationStage p = Generation \<longleftrightarrow> completeness p \<ge> 60)
   \<and> getConversationStage p \<noteq> Refinement
   \<and> getConversationStage (p\<lparr>completeness := 59\<rparr>) = Collection
   \<and> getConversationStage (p\<lparr>completeness := 60\<rparr>) = Generation"
  by (simp add: getConversationStage_def)

section \<open>Completeness of the profile\<close>

text \<open>
  C1. The completeness stored by a turn that merges is the rounded share of populated
  fields, \<open>roundHalfUp (100 * populatedCount / 7)\<close>; this holds of the profile of
  every reachable state, whose completeness is therefore one of 0, 14, 29, 43, 57, 71,
  86 and 100; and the initial profile has completeness 0.
\<close>

theorem completeness_is_rounded_share:
  "completeness (updateProfile p extractedInfo) = specCompleteness (updateProfile p extractedInfo)
   \<and> (\<not> (trim (input s) = [] \<and> attachedFiles s = []) \<longrightarrow>
        completeness (userProfile (handleSubmit env s)) = specCompleteness (userProfile (handleSubmit env s)))
   \<and> (reachable s \<longrightarrow>
        completeness (userProfile s) = specCompleteness (userProfile s)
        \<and> completeness (userProfile s) \<in> {0, 14, 29, 43, 57, 71, 86, 100})
   \<and> userProfile (initialState newDate0) = initialProfile
   \<and> completeness initialProfile = 0"
proof (intro conjI impI)
  show "completeness (updateProfile p extractedInfo) = specCompleteness (updateProfile p extractedInfo)"
    by (simp only: completeness_updateProfile calculateCompleteness_spec)
next
  assume "\<not> (trim (input s) = [] \<and> attachedFiles s = [])"
  then have "userProfile (handleSubmit env s) = updateProfile (userProfile s) (analyzeUserInput (input s))"
    by (auto simp add: userProfile_handleSubmit)
  then show "completeness (userProfile (handleSubmit env s)) = specCompleteness (userProfile (handleSubmit env s))"
    by (simp only: completeness_updateProfile calculateCompleteness_spec)
next
  assume r: "reachable s"
  from reachable_completeness [OF r]
  show "completeness (userProfile s) = specCompleteness (userProfile s)"
    by (simp only: calculateCompleteness_spec)
  from reachable_completeness [OF r] calculateCompleteness_values [of "userProfile s"]
  show "completeness (userProfile s) \<in> {0, 14, 29, 43, 57, 71, 86, 100}"
    by simp
next
  show "userProfile (initialState newDate0) = initialProfile"
    by (simp add: initialState_def)
  show "completeness initialProfile = 0"
    by (simp add: initialProfile_def)
qed

theorem completeness_is_rounded_share_witness:
  "reachable (handleSubmit exampleServices (setInput ''I study math at school'' (initialState 0)))
   \<and> \<not> (trim (input (setInput ''I study math at school'' (initialState 0))) = []
          \<and> attachedFiles (setInput ''I study math at school'' (initialState 0)) = [])
   \<and> completeness (userProfile
         (handleSubmit exampleServices (setInput ''I study math at school'' (initialState 0)))) = 29
   \<and> specCompleteness (userProfile
         (handleSubmit exampleServices (setInput ''I study math at school'' (initialState 0)))) = 29"
proof -
  let ?s0 = "setInput ''I study math at school'' (initialState 0)"
  let ?s1 = "handleSubmit exampleServices ?s0"
  have r: "reachable ?s1"
    by (intro reachable.intros)
  have "trim ''I study math at school'' \<noteq> []"
    by (rule trim_nonempty [of "CHR ''I''"]) (simp_all add: letter_not_blank)
  then have t: "\<not> (trim (input ?s0) = [] \<and> attachedFiles ?s0 = [])"
    by (simp add: setInput_def)
  have u: "userProfile ?s1 = updateProfile initialProfile (analyzeUserInput ''I study math at school'')"
    using t by (simp add: userProfile_handleSubmit) (simp add: setInput_def initialState_def)
  have v: "completeness (updateProfile initialProfile (analyzeUserInput ''I study math at school'')) = 29"
    by code_simp
  from completeness_is_rounded_share [of initialProfile emptyPartial ?s1 exampleServices 0] r
  have "completeness (userProfile ?s1) = specCompleteness (userProfile ?s1)"
    by blast
  with r t u v show ?thesis by simp
qed

section \<open>Classification\<close>

text \<open>
  C3. The classifier's output holds a field exactly when the lowercased text contains
  one of that field's trigger words (\<open>triggered\<close>); the fragment of a triggered field
  is the whole original text (\<open>fragment\<close>: the text itself for \<open>major\<close>, the
  one-element sequence of it for a list field); and one message can set several fields,
  as "I love coding and won an award" sets both \<open>hobbies\<close> and \<open>awards\<close>.
\<close>

theorem analyzeUserInput_keyword_containment:
  "(getField (analyzeUserInput text) f \<noteq> None \<longleftrightarrow> triggered f text)
   \<and> getField (analyzeUserInput text) f = (if triggered f text then Some (fragment f text) else None)
   \<and> completeness (analyzeUserInput text) = None
   \<and> getField (analyzeUserInput ''I love coding and won an award'') Hobbies
       = Some (Arr [''I love coding and won an award''])
   \<and> getField (analyzeUserInput ''I love coding and won an award'') Awards
       = Some (Arr [''I love coding and won an award''])"
proof -
  have t: "triggered Hobbies ''I love coding and won an award''"
    "triggered Awards ''I love coding and won an award''"
    by code_simp+
  have e: "getField (analyzeUserInput ''I love coding and won an award'') Hobbies
             = Some (Arr [''I love coding and won an award''])"
    "getField (analyzeUserInput ''I love coding and won an award'') Awards
             = Some (Arr [''I love coding and won an award''])"
    by (simp_all only: getField_analyzeUserInput t if_True fragment.simps)
  have c: "completeness (analyzeUserInput text) = None"
    by (simp add: analyzeUserInput_record)
  have g: "getField (analyzeUserInput text) f = (if triggered f text then Some (fragment f text) else None)"
    by (rule getField_analyzeUserInput)
  then have "getField (analyzeUserInput text) f \<noteq> None \<longleftrightarrow> triggered f text"
    by simp
  with g c e show ?thesis
    by blast
qed

text \<open>
  C5. A text that contains no trigger word of any field yields no field; the empty
  text and a text of white space only (one that \<open>trim\<close> empties, in particular
  one of ASCII white space) are such texts. Merging the empty classifier
  output changes none of the seven fields, and the turn leaves the whole profile,
  completeness included, as it was: for every profile whose completeness is the live
  value of its fields, and so for the profile of every reachable state.
\<close>

theorem no_keyword_leaves_profile_unchanged:
  "(noKeyword text \<longrightarrow> analyzeUserInput text = emptyPartial)
   \<and> analyzeUserInput [] = emptyPartial
   \<and> ((\<forall>c \<in> set ws. isWhitespace c) \<longrightarrow> noKeyword ws \<and> analyzeUserInput ws = emptyPartial)
   \<and> (trim blank = [] \<longrightarrow> noKeyword blank \<and> analyzeUserInput blank = emptyPartial)
   \<and> mergeExtracted p emptyPartial = p
   \<and> (completeness p = calculateCompleteness p \<longrightarrow> updateProfile p emptyPartial = p)
   \<and> (reachable s \<and> noKeyword (input s) \<longrightarrow> userProfile (handleSubmit env s) = userProfile s)"
proof (intro conjI impI)
  assume "noKeyword text"
  then show "analyzeUserInput text = emptyPartial"
    by (rule analyzeUserInput_noKeyword)
next
  have "noKeyword []"
    by (rule whitespace_noKeyword) simp
  then show "analyzeUserInput [] = emptyPartial"
    by (rule analyzeUserInput_noKeyword)
next
  assume w: "\<forall>c \<in> set ws. isWhitespace c"
  then show "noKeyword ws"
    by (rule whitespace_noKeyword)
  then show "analyzeUserInput ws = emptyPartial"
    by (rule analyzeUserInput_noKeyword)
next
  assume "trim blank = []"
  then show "noKeyword blank"
    by (rule trim_empty_noKeyword)
  then show "analyzeUserInput blank = emptyPartial"
    by (rule analyzeUserInput_noKeyword)
next
  show "mergeExtracted p emptyPartial = p"
    by (rule mergeExtracted_emptyPartial)
next
  assume "completeness p = calculateCompleteness p"
  then show "updateProfile p emptyPartial = p"
    by (rule updateProfile_emptyPartial)
next
  assume a: "reachable s \<and> noKeyword (input s)"
  then have "updateProfile (userProfile s) (analyzeUserInput (input s)) = userProfile s"
    by (simp add: analyzeUserInput_noKeyword updateProfile_emptyPartial reachable_completeness)
  moreover from a have "userProfile (handleSubmit env (s\<lparr>attachedFiles := attachedFiles s\<rparr>)) =
      updateProfile (userProfile s) (analyzeUserInput (input s))"
    by (intro userProfile_handleSubmit_reachable) simp
  ultimately show "userProfile (handleSubmit env s) = userProfile s"
    by simp
qed

theorem no_keyword_leaves_profile_unchanged_witness:
  "noKeyword ''hello there''
   \<and> isWhitespace CHR '' '' \<and> isWhitespace (CHR 0x09) \<and> isWhitespace (CHR 0x0A)
   \<and> analyzeUserInput [CHR '' '', CHR 0x09, CHR 0x0A] = emptyPartial
   \<and> trim [CHR 0xC2, CHR 0xA0, CHR '' ''] = []
   \<and> analyzeUserInput [CHR 0xC2, CHR 0xA0, CHR '' ''] = emptyPartial
   \<and> completeness initialProfile = calculateCompleteness initialProfile
   \<and> updateProfile initialProfile emptyPartial = initialProfile
   \<and> reachable (setInput ''hello there'' (initialState 0))
   \<and> userProfile (handleSubmit exampleServices (setInput ''hello there'' (initialState 0)))
       = initialProfile"
proof -
  let ?s = "setInput ''hello there'' (initialState 0)"
  have n: "noKeyword ''hello there''"
    by code_simp
  have w: "\<forall>c \<in> set [CHR '' '', CHR 0x09, CHR 0x0A]. isWhitespace c"
    by (simp add: isWhitespace_def)
  have i: "completeness initialProfile = calculateCompleteness initialProfile"
    by (simp add: calculateCompleteness_initialProfile) (simp add: initialProfile_def)
  have r: "reachable ?s"
    by (intro reachable.intros)
  have inp: "input ?s = ''hello there''" and up: "userProfile ?s = initialProfile"
    by (simp_all add: setInput_def initialState_def)
  have b: "trim [CHR 0xC2, CHR 0xA0, CHR '' ''] = []"
    by code_simp
  from no_keyword_leaves_profile_unchanged
         [of "''hello there''" "[CHR '' '', CHR 0x09, CHR 0x0A]" "[CHR 0xC2, CHR 0xA0, CHR '' '']"
             initialProfile ?s exampleServices]
  show ?thesis
    using n w b i r inp up by simp
qed

section \<open>Merging\<close>

text \<open>
  C4. Merging a classifier output never lowers the completeness of a profile: the
  share of populated fields computed by \<open>calculateCompleteness\<close> does not decrease,
  so neither does the stored value of a profile that carries its live value, as the
  profile of every reachable state does over a turn. The reason is that a populated
  field stays populated: each list field keeps what it held as a prefix of what it
  holds afterwards, and \<open>major\<close> is either kept or replaced by a non-empty fragment
  of the classifier output.
\<close>

theorem merge_never_lowers_completeness:
  "calculateCompleteness p \<le> calculateCompleteness (updateProfile p e)
   \<and> (completeness p = calculateCompleteness p \<longrightarrow>
        completeness p \<le> completeness (updateProfile p e))
   \<and> (reachable s \<longrightarrow> completeness (userProfile s) \<le> completeness (userProfile (handleSubmit env s)))
   \<and> (populated p f \<longrightarrow> populated (updateProfile p e) f)
   \<and> prefix (orEmpty (colleges p)) (orEmpty (colleges (updateProfile p e)))
   \<and> prefix (orEmpty (essayPrompts p)) (orEmpty (essayPrompts (updateProfile p e)))
   \<and> prefix (orEmpty (extracurriculars p)) (orEmpty (extracurriculars (updateProfile p e)))
   \<and> prefix (orEmpty (classes p)) (orEmpty (classes (updateProfile p e)))
   \<and> prefix (orEmpty (hobbies p)) (orEmpty (hobbies (updateProfile p e)))
   \<and> prefix (orEmpty (awards p)) (orEmpty (awards (updateProfile p e)))
   \<and> (major (updateProfile p e) = major p
        \<or> (\<exists>t. t \<noteq> [] \<and> major e = Some t \<and> major (updateProfile p e) = Some t))"
proof (intro conjI impI)
  show "calculateCompleteness p \<le> calculateCompleteness (updateProfile p e)"
    by (rule calculateCompleteness_mono)
next
  assume "completeness p = calculateCompleteness p"
  with calculateCompleteness_mono [of p e]
  show "completeness p \<le> completeness (updateProfile p e)"
    by (simp add: completeness_updateProfile)
next
  assume r: "reachable s"
  have "userProfile (handleSubmit env s) = userProfile s
        \<or> userProfile (handleSubmit env s) = updateProfile (userProfile s) (analyzeUserInput (input s))"
    by (simp add: userProfile_handleSubmit)
  with reachable_completeness [OF r] calculateCompleteness_mono [of "userProfile s" "analyzeUserInput (input s)"]
  show "completeness (userProfile s) \<le> completeness (userProfile (handleSubmit env s))"
    by (auto simp: completeness_updateProfile)
next
  assume "populated p f"
  then show "populated (updateProfile p e) f"
    by (rule populated_updateProfile)
next
  show "major (updateProfile p e) = major p
        \<or> (\<exists>t. t \<noteq> [] \<and> major e = Some t \<and> major (updateProfile p e) = Some t)"
    by (cases "major e") (simp_all add: arrays_updateProfile)
qed (simp_all only: arrays_updateProfile prefix_mergeArray)

theorem merge_never_lowers_completeness_witness:
  "completeness initialProfile = calculateCompleteness initialProfile
   \<and> completeness initialProfile
       \<le> completeness (updateProfile initialProfile (analyzeUserInput ''I study math at school''))
   \<and> reachable (setInput ''I study math at school'' (initialState 0))
   \<and> completeness (userProfile (setInput ''I study math at school'' (initialState 0)))
       \<le> completeness (userProfile
            (handleSubmit exampleServices (setInput ''I study math at school'' (initialState 0))))
   \<and> populated (updateProfile initialProfile (analyzeUserInput ''I study math at school'')) Major
   \<and> populated (updateProfile (updateProfile initialProfile (analyzeUserInput ''I study math at school''))
         (analyzeUserInput ''I love chess'')) Major"
proof -
  let ?s = "setInput ''I study math at school'' (initialState 0)"
  let ?p = "updateProfile initialProfile (analyzeUserInput ''I study math at school'')"
  have i: "completeness initialProfile = calculateCompleteness initialProfile"
    by (simp add: calculateCompleteness_initialProfile) (simp add: initialProfile_def)
  have r: "reachable ?s"
    by (intro reachable.intros)
  have m: "populated ?p Major"
    by code_simp
  from merge_never_lowers_completeness
         [of initialProfile "analyzeUserInput ''I study math at school''" ?s exampleServices Major]
       merge_never_lowers_completeness [of ?p "analyzeUserInput ''I love chess''" ?s exampleServices Major]
  show ?thesis
    using i r m by blast
qed

section \<open>The scenario of one message\<close>

text \<open>
  C6, as amended. From the empty profile, the message "I'm majoring in computer
  science and applying to MIT" triggers \<open>major\<close> alone (through "major" in
  "majoring"; none of "college", "university", "school" occurs in it): the turn sets
  \<open>major\<close> to the message, leaves the six list fields absent, raises completeness
  from 0 to 14 (1 of 7 fields), and the stage is \<open>collection\<close>.
\<close>

theorem scenario_majoring_populates_major_only:
  "userProfile (handleSubmit env
       (setInput ''I'm majoring in computer science and applying to MIT'' (initialState newDate0)))
     = \<lparr>major = Some ''I'm majoring in computer science and applying to MIT'',
        colleges = None, essayPrompts = None, extracurriculars = None, classes = None,
        hobbies = None, awards = None, completeness = 14\<rparr>
   \<and> completeness (userProfile (initialState newDate0)) = 0
   \<and> getConversationStage (userProfile (handleSubmit env
         (setInput ''I'm majoring in computer science and applying to MIT'' (initialState newDate0))))
       = Collection"
proof -
  let ?m = "''I'm majoring in computer science and applying to MIT''"
  have t: "triggered Major ?m" "\<not> triggered Colleges ?m" "\<not> triggered EssayPrompts ?m"
    "\<not> triggered Extracurriculars ?m" "\<not> triggered Classes ?m" "\<not> triggered Hobbies ?m"
    "\<not> triggered Awards ?m"
    by code_simp+
  have a: "analyzeUserInput ?m = emptyPartial\<lparr>major := Some ?m\<rparr>"
    by (simp only: analyzeUserInput_record t if_True if_False) (simp add: emptyPartial_def)
  have c: "calculateCompleteness (mergeExtracted initialProfile (emptyPartial\<lparr>major := Some ?m\<rparr>)) = 14"
    by code_simp
  have u: "updateProfile initialProfile (analyzeUserInput ?m)
      = \<lparr>major = Some ?m, colleges = None, essayPrompts = None, extracurriculars = None,
         classes = None, hobbies = None, awards = None, completeness = 14\<rparr>"
    unfolding a updateProfile_def Let_def c
    by (simp add: mergeExtracted_def initialProfile_def emptyPartial_def)
  have n: "trim ?m \<noteq> []"
    by (rule trim_nonempty [of "CHR ''I''"]) (simp_all add: letter_not_blank)
  have h: "userProfile (handleSubmit env (setInput ?m (initialState newDate0)))
      = updateProfile initialProfile (analyzeUserInput ?m)"
    using n by (simp add: userProfile_handleSubmit setInput_def initialState_def)
  show ?thesis
    unfolding h u by (simp add: initialState_def initialProfile_def getConversationStage_def)
qed

text \<open>
  C6 as stated (\<open>major\<close> and \<open>colleges\<close> both populated, completeness 29) fails
  at that message: \<open>colleges\<close> is not populated and the completeness is not 29.
\<close>

theorem scenario_majoring_counterexample:
  "\<not> (populated (userProfile (handleSubmit exampleServices
           (setInput ''I'm majoring in computer science and applying to MIT'' (initialState 0)))) Major
      \<and> populated (userProfile (handleSubmit exampleServices
           (setInput ''I'm majoring in computer science and applying to MIT'' (initialState 0)))) Colleges
      \<and> completeness (userProfile (handleSubmit exampleServices
           (setInput ''I'm majoring in computer science and applying to MIT'' (initialState 0)))) = 29
      \<and> getConversationStage (userProfile (handleSubmit exampleServices
           (setInput ''I'm majoring in computer science and applying to MIT'' (initialState 0))))
         = Collection)"
proof -
  let ?m = "''I'm majoring in computer science and applying to MIT''"
  have n: "trim ?m \<noteq> []"
    by (rule trim_nonempty [of "CHR ''I''"]) (simp_all add: letter_not_blank)
  have h: "userProfile (handleSubmit exampleServices (setInput ?m (initialState 0)))
      = updateProfile initialProfile (analyzeUserInput ?m)"
    using n by (simp add: userProfile_handleSubmit setInput_def initialState_def)
  have "colleges (updateProfile initialProfile (analyzeUserInput ?m)) = None"
    by code_simp
  then show ?thesis
    unfolding h by simp
qed

section \<open>Attachments and the profile\<close>

text \<open>
  C10. The profile a turn leaves depends on the typed text alone (and on the profile
  before the turn): from a reachable state, whatever files are attached and whatever
  the extraction and generation services answer, the turn leaves the profile
  \<open>updateProfile (userProfile s) (analyzeUserInput (input s))\<close>, so two runs on the
  same text with different attachments or different extraction results end with the
  same profile, the same completeness and the same stage.
\<close>

theorem profile_independent_of_attachments:
  "reachable s \<longrightarrow>
     userProfile (handleSubmit env1 (s\<lparr>attachedFiles := files1\<rparr>))
       = updateProfile (userProfile s) (analyzeUserInput (input s))
     \<and> userProfile (handleSubmit env1 (s\<lparr>attachedFiles := files1\<rparr>))
       = userProfile (handleSubmit env2 (s\<lparr>attachedFiles := files2\<rparr>))
     \<and> completeness (userProfile (handleSubmit env1 (s\<lparr>attachedFiles := files1\<rparr>)))
       = completeness (userProfile (handleSubmit env2 (s\<lparr>attachedFiles := files2\<rparr>)))
     \<and> getConversationStage (userProfile (handleSubmit env1 (s\<lparr>attachedFiles := files1\<rparr>)))
       = getConversationStage (userProfile (handleSubmit env2 (s\<lparr>attachedFiles := files2\<rparr>)))"
proof
  assume r: "reachable s"
  note a = userProfile_handleSubmit_reachable [OF r, of env1 files1]
  note b = userProfile_handleSubmit_reachable [OF r, of env2 files2]
  show "userProfile (handleSubmit env1 (s\<lparr>attachedFiles := files1\<rparr>))
       = updateProfile (userProfile s) (analyzeUserInput (input s))
     \<and> userProfile (handleSubmit env1 (s\<lparr>attachedFiles := files1\<rparr>))
       = userProfile (handleSubmit env2 (s\<lparr>attachedFiles := files2\<rparr>))
     \<and> completeness (userProfile (handleSubmit env1 (s\<lparr>attachedFiles := files1\<rparr>)))
       = completeness (userProfile (handleSubmit env2 (s\<lparr>attachedFiles := files2\<rparr>)))
     \<and> getConversationStage (userProfile (handleSubmit env1 (s\<lparr>attachedFiles := files1\<rparr>)))
       = getConversationStage (userProfile (handleSubmit env2 (s\<lparr>attachedFiles := files2\<rparr>)))"
    by (simp only: a b)
qed

theorem profile_independent_of_attachments_witness:
  "reachable (setInput ''I study math at school'' (initialState 0))
   \<and> userProfile (handleSubmit exampleServices
         ((setInput ''I study math at school'' (initialState 0))\<lparr>attachedFiles := []\<rparr>))
       = userProfile (handleSubmit (exampleServices\<lparr>extractFromBlob := (\<lambda>file. Inl (Error ''down''))\<rparr>)
           ((setInput ''I study math at school'' (initialState 0))
              \<lparr>attachedFiles := [\<lparr>name = ''essay.pdf'', bytes = ''My school award''\<rparr>]\<rparr>))
   \<and> reachable (setInput '' '' (initialState 0))
   \<and> userProfile (handleSubmit exampleServices ((setInput '' '' (initialState 0))\<lparr>attachedFiles := []\<rparr>))
       = userProfile (handleSubmit exampleServices
           ((setInput '' '' (initialState 0))
              \<lparr>attachedFiles := [\<lparr>name = ''essay.pdf'', bytes = ''My school award''\<rparr>]\<rparr>))"
proof -
  have r: "reachable (setInput ''I study math at school'' (initialState 0))"
    "reachable (setInput '' '' (initialState 0))"
    by (intro reachable.intros)+
  from profile_independent_of_attachments
         [of "setInput ''I study math at school'' (initialState 0)" exampleServices "[]"
             "exampleServices\<lparr>extractFromBlob := (\<lambda>file. Inl (Error ''down''))\<rparr>"
             "[\<lparr>name = ''essay.pdf'', bytes = ''My school award''\<rparr>]"]
       profile_independent_of_attachments
         [of "setInput '' '' (initialState 0)" exampleServices "[]" exampleServices
             "[\<lparr>name = ''essay.pdf'', bytes = ''My school award''\<rparr>]"]
  show ?thesis
    using r by blast
qed

section \<open>Streaming\<close>

text \<open>
  C7. The assistant message is appended with empty content before the stream starts,
  and after the \<open>n\<close>-th call of the chunk callback its content is the concatenation
  of the first \<open>n\<close> chunks, in the order of arrival. So each published content
  extends the one before it, and a turn ends with the concatenation of all the chunks
  the service delivered. (\<open>published\<close> at \<open>Suc n\<close> is the callback applied to
  \<open>published\<close> at \<open>n\<close> and the next chunk.)
\<close>

theorem streamed_content_is_concatenation:
  "content (last (published aid
       (msgs @ [\<lparr>message_id = aid, role = Assistant, content = [], timestamp = t, attachments = None\<rparr>])
       chunks n)) = concat (take n chunks)
   \<and> content (last (published aid
       (msgs @ [\<lparr>message_id = aid, role = Assistant, content = [], timestamp = t, attachments = None\<rparr>])
       chunks 0)) = []
   \<and> prefix
       (content (last (published aid
          (msgs @ [\<lparr>message_id = aid, role = Assistant, content = [], timestamp = t, attachments = None\<rparr>])
          chunks n)))
       (content (last (published aid
          (msgs @ [\<lparr>message_id = aid, role = Assistant, content = [], timestamp = t, attachments = None\<rparr>])
          chunks (Suc n))))
   \<and> (n < length chunks \<longrightarrow>
        published aid ms chunks (Suc n)
          = snd (onChunk aid (concat (take n chunks), published aid ms chunks n) (chunks ! n)))
   \<and> (\<not> (trim (input s) = [] \<and> attachedFiles s = []) \<longrightarrow>
        role (last (messages (handleSubmit env s))) = Assistant
        \<and> content (last (messages (handleSubmit env s)))
            = concat (fst (streamText env (last (requests (handleSubmit env s))))))"
proof (intro conjI impI)
  show "prefix
       (content (last (published aid
          (msgs @ [\<lparr>message_id = aid, role = Assistant, content = [], timestamp = t, attachments = None\<rparr>])
          chunks n)))
       (content (last (published aid
          (msgs @ [\<lparr>message_id = aid, role = Assistant, content = [], timestamp = t, attachments = None\<rparr>])
          chunks (Suc n))))"
    unfolding last_published
    by (cases "n < length chunks") (simp_all add: take_Suc_conv_app_nth)
next
  assume n: "n < length chunks"
  have "runStream aid ms (take n chunks)
      = (concat (take n chunks), snd (runStream aid ms (take n chunks)))"
    by (simp add: runStream_eq)
  then show "published aid ms chunks (Suc n)
          = snd (onChunk aid (concat (take n chunks), published aid ms chunks n) (chunks ! n))"
    unfolding published_def runStream_step [OF n] by (rule arg_cong [where f = "\<lambda>st. snd (onChunk aid st (chunks ! n))"])
next
  assume e: "\<not> (trim (input s) = [] \<and> attachedFiles s = [])"
  note m = messages_handleSubmit [OF e, of env]
  show "content (last (messages (handleSubmit env s)))
            = concat (fst (streamText env (last (requests (handleSubmit env s)))))"
    by (subst m) (simp only: last_published take_all order_refl)
  show "role (last (messages (handleSubmit env s))) = Assistant"
    by (subst m) (simp add: published_def runStream_eq last_map)
qed (simp_all only: last_published take_0 concat.simps)

theorem streamed_content_is_concatenation_witness:
  "Suc 0 < length [''Hel'', ''lo '', ''World'']
   \<and> published ''1006''
        [\<lparr>message_id = ''1006'', role = Assistant, content = [], timestamp = 1005, attachments = None\<rparr>]
        [''Hel'', ''lo '', ''World''] 2
      = [\<lparr>message_id = ''1006'', role = Assistant, content = ''Hello '', timestamp = 1005,
           attachments = None\<rparr>]
   \<and> \<not> (trim (input (setInput ''hi'' (initialState 0))) = []
          \<and> attachedFiles (setInput ''hi'' (initialState 0)) = [])
   \<and> content (last (messages (handleSubmit exampleServices (setInput ''hi'' (initialState 0)))))
       = ''Hello World''"
proof -
  let ?s = "setInput ''hi'' (initialState 0)"
  let ?a = "\<lparr>message_id = ''1006'', role = Assistant, content = [], timestamp = 1005, attachments = None\<rparr>"
  have "trim ''hi'' \<noteq> []"
    by (rule trim_nonempty [of "CHR ''h''"]) (simp_all add: letter_not_blank)
  then have e: "\<not> (trim (input ?s) = [] \<and> attachedFiles ?s = [])"
    by (simp add: setInput_def)
  have p1: "published ''1006'' [?a] [''Hel'', ''lo '', ''World''] (Suc 0)
      = [\<lparr>message_id = ''1006'', role = Assistant, content = ''Hel'', timestamp = 1005,
           attachments = None\<rparr>]"
    by (simp add: published_def runStream_eq)
  have c: "concat (fst (streamText exampleServices r)) = ''Hello World''" for r
    by (simp add: exampleServices_def)
  from streamed_content_is_concatenation
         [of "''1006''" "[]" 1005 "[''Hel'', ''lo '', ''World'']" "Suc 0" "[?a]" ?s exampleServices]
  have "published ''1006'' [?a] [''Hel'', ''lo '', ''World''] (Suc (Suc 0))
          = snd (onChunk ''1006'' (concat (take (Suc 0) [''Hel'', ''lo '', ''World'']),
                   published ''1006'' [?a] [''Hel'', ''lo '', ''World''] (Suc 0)) ([''Hel'', ''lo '', ''World''] ! Suc 0))"
    and "content (last (messages (handleSubmit exampleServices ?s)))
            = concat (fst (streamText exampleServices (last (requests (handleSubmit exampleServices ?s)))))"
    using e by simp_all
  then show ?thesis
    using e by (simp add: p1 c onChunk_pair numeral_2_eq_2)
qed

section \<open>Attachments\<close>

text \<open>
  C8. The attachment context is the concatenation, in the order of submission, of one
  block per attachment: the extracted text under the file's name where extraction
  succeeds, the note "Could not process" with the file's name where it fails. A
  failing attachment leaves the blocks of the others as they are, and the request to
  the generation service is still made, with the user's text followed by all the
  blocks at the end of its prompt.
\<close>

theorem attachments_are_isolated_and_ordered:
  "processAttachments extract files = concat (map (attachmentBlock extract) files)
   \<and> (extract file = Inr extractedText \<longrightarrow>
        attachmentBlock extract file
          = ''\<newline>\<newline>Content from '' @ name file @ '':\<newline>'' @ extractedText)
   \<and> (extract file = Inl err \<longrightarrow>
        attachmentBlock extract file = ''\<newline>\<newline>Note: Could not process '' @ name file)
   \<and> processAttachments extract (before @ file # after)
       = processAttachments extract before @ attachmentBlock extract file
         @ processAttachments extract after
   \<and> (\<not> (trim (input s) = [] \<and> attachedFiles s = []) \<longrightarrow>
        length (requests (handleSubmit env s)) = Suc (length (requests s))
        \<and> suffix (input s @ concat (map (attachmentBlock (extractFromBlob env)) (attachedFiles s)))
             (prompt (last (requests (handleSubmit env s)))))"
proof (intro conjI impI)
  show "processAttachments extract files = concat (map (attachmentBlock extract) files)"
    by (rule processAttachments_eq)
next
  assume "extract file = Inr extractedText"
  then show "attachmentBlock extract file
          = ''\<newline>\<newline>Content from '' @ name file @ '':\<newline>'' @ extractedText"
    by (simp add: attachmentBlock_def)
next
  assume "extract file = Inl err"
  then show "attachmentBlock extract file = ''\<newline>\<newline>Note: Could not process '' @ name file"
    by (simp add: attachmentBlock_def)
next
  show "processAttachments extract (before @ file # after)
       = processAttachments extract before @ attachmentBlock extract file
         @ processAttachments extract after"
    by (simp add: processAttachments_eq)
next
  assume e: "\<not> (trim (input s) = [] \<and> attachedFiles s = [])"
  note r = requests_handleSubmit [OF e, of env]
  show "length (requests (handleSubmit env s)) = Suc (length (requests s))"
    by (subst r) simp
  have "suffix (input s @ processAttachments (extractFromBlob env) (attachedFiles s))
          (latestMessage (input s) (processAttachments (extractFromBlob env) (attachedFiles s)))"
    unfolding latestMessage_def by (rule suffix_appendI) (rule suffix_order.refl)
  from suffix_order.trans [OF this suffix_latestMessage]
  show "suffix (input s @ concat (map (attachmentBlock (extractFromBlob env)) (attachedFiles s)))
             (prompt (last (requests (handleSubmit env s))))"
    by (subst r) (simp add: processAttachments_eq)
qed

theorem attachments_are_isolated_and_ordered_witness:
  "extractFromBlob exampleServices \<lparr>name = ''a.txt'', bytes = ''AAA''\<rparr> = Inr ''AAA''
   \<and> extractFromBlob exampleServices \<lparr>name = ''broken.pdf'', bytes = ''BBB''\<rparr> = Inl (Error ''unreadable'')
   \<and> processAttachments (extractFromBlob exampleServices)
        [\<lparr>name = ''a.txt'', bytes = ''AAA''\<rparr>, \<lparr>name = ''broken.pdf'', bytes = ''BBB''\<rparr>,
         \<lparr>name = ''c.txt'', bytes = ''CCC''\<rparr>]
      = ''\<newline>\<newline>Content from a.txt:\<newline>AAA''
        @ ''\<newline>\<newline>Note: Could not process broken.pdf''
        @ ''\<newline>\<newline>Content from c.txt:\<newline>CCC''
   \<and> \<not> (trim (input ((initialState 0)\<lparr>attachedFiles := [\<lparr>name = ''broken.pdf'', bytes = ''BBB''\<rparr>]\<rparr>)) = []
          \<and> attachedFiles ((initialState 0)\<lparr>attachedFiles := [\<lparr>name = ''broken.pdf'', bytes = ''BBB''\<rparr>]\<rparr>) = [])
   \<and> length (requests (handleSubmit exampleServices
        ((initialState 0)\<lparr>attachedFiles := [\<lparr>name = ''broken.pdf'', bytes = ''BBB''\<rparr>]\<rparr>))) = 1"
proof -
  let ?a = "\<lparr>name = ''a.txt'', bytes = ''AAA''\<rparr>"
  let ?b = "\<lparr>name = ''broken.pdf'', bytes = ''BBB''\<rparr>"
  let ?c = "\<lparr>name = ''c.txt'', bytes = ''CCC''\<rparr>"
  let ?s = "(initialState 0)\<lparr>attachedFiles := [?b]\<rparr>"
  have x: "extractFromBlob exampleServices ?a = Inr ''AAA''"
    "extractFromBlob exampleServices ?b = Inl (Error ''unreadable'')"
    "extractFromBlob exampleServices ?c = Inr ''CCC''"
    by (simp_all add: exampleServices_def)
  have e: "\<not> (trim (input ?s) = [] \<and> attachedFiles ?s = [])"
    by simp
  have q: "requests ?s = []"
    by (simp add: initialState_def)
  note t1 = attachments_are_isolated_and_ordered
              [of "extractFromBlob exampleServices" "[?a, ?b, ?c]" ?a "''AAA''" "Error ''unreadable''"
                  "[]" "[]" ?s exampleServices]
  note t2 = attachments_are_isolated_and_ordered
              [of "extractFromBlob exampleServices" "[?a, ?b, ?c]" ?b "''AAA''" "Error ''unreadable''"
                  "[]" "[]" ?s exampleServices]
  note t3 = attachments_are_isolated_and_ordered
              [of "extractFromBlob exampleServices" "[?a, ?b, ?c]" ?c "''CCC''" "Error ''unreadable''"
                  "[]" "[]" ?s exampleServices]
  from t1 x have a: "attachmentBlock (extractFromBlob exampleServices) ?a
      = ''\<newline>\<newline>Content from a.txt:\<newline>AAA''"
    by simp
  from t2 x have b: "attachmentBlock (extractFromBlob exampleServices) ?b
      = ''\<newline>\<newline>Note: Could not process broken.pdf''"
    by simp
  from t3 x have c: "attachmentBlock (extractFromBlob exampleServices) ?c
      = ''\<newline>\<newline>Content from c.txt:\<newline>CCC''"
    by simp
  from t1 have p: "processAttachments (extractFromBlob exampleServices) [?a, ?b, ?c]
      = concat (map (attachmentBlock (extractFromBlob exampleServices)) [?a, ?b, ?c])"
    by blast
  from t1 e q have l: "length (requests (handleSubmit exampleServices ?s)) = 1"
    by simp
  show ?thesis
    using x e l unfolding p by (simp add: a b c)
qed

section \<open>The prompt\<close>

text \<open>
  C9. For every profile, stage, message text and attachment context, the prompt
  contains the profile snapshot, and in it the line of each of the seven fields, which
  reads "Not specified" after the label when the field is not populated; it contains
  the completeness percentage and the stage; and it ends with the user's text followed
  by the attachment context, under "User's latest message: ". In the generation stage
  it contains each of the six named sections with the line that opens it. The prompt a
  turn sends to the generation service is this one, built from the merged profile and
  the stage selected from it.
\<close>

theorem prompt_contains_profile_and_message:
  "includes_str (buildSystemPrompt st p msg ctx) (profileContext p st)
   \<and> includes_str (buildSystemPrompt st p msg ctx) (renderedField p f)
   \<and> (\<not> populated p f \<longrightarrow> renderedField p f = fieldLabel f @ ''Not specified'' @ ''\<newline>'')
   \<and> includes_str (buildSystemPrompt st p msg ctx)
        (''- Profile Completeness: '' @ toString (completeness p) @ ''%\<newline>'')
   \<and> includes_str (buildSystemPrompt st p msg ctx)
        (''- Conversation Stage: '' @ stageName st @ ''\<newline>'')
   \<and> includes_str (buildSystemPrompt st p msg ctx) (''User's latest message: '' @ msg @ ctx)
   \<and> suffix (msg @ ctx) (buildSystemPrompt st p msg ctx)
   \<and> (st = Generation \<longrightarrow>
        (\<forall>h \<in> set sectionInstructions. includes_str (buildSystemPrompt st p msg ctx) h))
   \<and> (\<not> (trim (input s) = [] \<and> attachedFiles s = []) \<longrightarrow>
        prompt (last (requests (handleSubmit env s)))
          = buildSystemPrompt (getConversationStage (userProfile (handleSubmit env s)))
              (userProfile (handleSubmit env s)) (input s)
              (processAttachments (extractFromBlob env) (attachedFiles s)))"
proof (intro conjI impI ballI)
  note ctx = sublist_profileContext [of p st msg ctx]
  show "includes_str (buildSystemPrompt st p msg ctx) (profileContext p st)"
    unfolding includes_str_sublist by (rule ctx)
  show "includes_str (buildSystemPrompt st p msg ctx) (renderedField p f)"
    unfolding includes_str_sublist
    by (rule sublist_order.order.trans [OF sublist_renderedField ctx])
  show "includes_str (buildSystemPrompt st p msg ctx)
        (''- Profile Completeness: '' @ toString (completeness p) @ ''%\<newline>'')"
    unfolding includes_str_sublist completeness_slice [where p = p and st = st]
    by (rule sublist_order.order.trans [OF _ ctx]) (simp only: profileContext_def sublist_concat_slice)
  show "includes_str (buildSystemPrompt st p msg ctx)
        (''- Conversation Stage: '' @ stageName st @ ''\<newline>'')"
    unfolding includes_str_sublist completeness_slice [where p = p and st = st]
    by (rule sublist_order.order.trans [OF _ ctx]) (simp only: profileContext_def sublist_concat_slice)
  have "suffix (latestMessage msg ctx) (buildSystemPrompt st p msg ctx)"
    by (rule suffix_latestMessage)
  then show "includes_str (buildSystemPrompt st p msg ctx) (''User's latest message: '' @ msg @ ctx)"
    unfolding includes_str_sublist latestMessage_def by (rule suffix_imp_sublist)
  have "suffix (msg @ ctx) (latestMessage msg ctx)"
    unfolding latestMessage_def by (rule suffix_appendI) (rule suffix_order.refl)
  from suffix_order.trans [OF this suffix_latestMessage]
  show "suffix (msg @ ctx) (buildSystemPrompt st p msg ctx)" .
next
  assume "\<not> populated p f"
  then show "renderedField p f = fieldLabel f @ ''Not specified'' @ ''\<newline>''"
    by (rule renderedField_unpopulated)
next
  fix h
  assume g: "st = Generation" and h: "h \<in> set sectionInstructions"
  from sublist_order.order.trans [OF sections_in_generationSections [OF h] sublist_generationSections]
  show "includes_str (buildSystemPrompt st p msg ctx) h"
    unfolding includes_str_sublist g .
next
  assume e: "\<not> (trim (input s) = [] \<and> attachedFiles s = [])"
  show "prompt (last (requests (handleSubmit env s)))
          = buildSystemPrompt (getConversationStage (userProfile (handleSubmit env s)))
              (userProfile (handleSubmit env s)) (input s)
              (processAttachments (extractFromBlob env) (attachedFiles s))"
    by (subst requests_handleSubmit [OF e, of env]) simp
qed

theorem prompt_contains_profile_and_message_witness:
  "\<not> populated initialProfile Colleges
   \<and> includes_str (buildSystemPrompt Generation initialProfile ''hi'' [])
        (fieldLabel Colleges @ ''Not specified'' @ ''\<newline>'')
   \<and> sectionInstructions ! 0 \<in> set sectionInstructions
   \<and> includes_str (buildSystemPrompt Generation initialProfile ''hi'' []) (sectionInstructions ! 0)
   \<and> \<not> (trim (input (setInput ''hi'' (initialState 0))) = []
          \<and> attachedFiles (setInput ''hi'' (initialState 0)) = [])
   \<and> prompt (last (requests (handleSubmit exampleServices (setInput ''hi'' (initialState 0)))))
       = buildSystemPrompt Collection
           (userProfile (handleSubmit exampleServices (setInput ''hi'' (initialState 0)))) ''hi'' []"
proof -
  let ?s = "setInput ''hi'' (initialState 0)"
  note t = prompt_contains_profile_and_message
             [of Generation initialProfile "''hi''" "[]" Colleges ?s exampleServices]
  have np: "\<not> populated initialProfile Colleges"
    by (simp add: initialProfile_def)
  with t have r: "renderedField initialProfile Colleges = fieldLabel Colleges @ ''Not specified'' @ ''\<newline>''"
    by blast
  from t have "includes_str (buildSystemPrompt Generation initialProfile ''hi'' [])
      (renderedField initialProfile Colleges)"
    by blast
  then have i1: "includes_str (buildSystemPrompt Generation initialProfile ''hi'' [])
      (fieldLabel Colleges @ ''Not specified'' @ ''\<newline>'')"
    by (simp only: r)
  have h: "sectionInstructions ! 0 \<in> set sectionInstructions"
    by (simp add: sectionInstructions_def)
  with t have i2: "includes_str (buildSystemPrompt Generation initialProfile ''hi'' []) (sectionInstructions ! 0)"
    by blast
  have "trim ''hi'' \<noteq> []"
    by (rule trim_nonempty [of "CHR ''h''"]) (simp_all add: letter_not_blank)
  then have e: "\<not> (trim (input ?s) = [] \<and> attachedFiles ?s = [])"
    by (simp add: setInput_def)
  with t have q: "prompt (last (requests (handleSubmit exampleServices ?s)))
      = buildSystemPrompt (getConversationStage (userProfile (handleSubmit exampleServices ?s)))
          (userProfile (handleSubmit exampleServices ?s)) (input ?s)
          (processAttachments (extractFromBlob exampleServices) (attachedFiles ?s))"
    by blast
  have u: "userProfile (handleSubmit exampleServices ?s) = updateProfile initialProfile (analyzeUserInput ''hi'')"
    using e by (simp add: userProfile_handleSubmit) (simp add: setInput_def initialState_def)
  have c: "completeness (updateProfile initialProfile (analyzeUserInput ''hi'')) = 0"
    by code_simp
  have g: "getConversationStage (userProfile (handleSubmit exampleServices ?s)) = Collection"
    unfolding u by (simp add: getConversationStage_def c)
  have a: "input ?s = ''hi''" "processAttachments (extractFromBlob exampleServices) (attachedFiles ?s) = []"
    by (simp_all add: setInput_def initialState_def processAttachments_def)
  from np i1 h i2 e q show ?thesis
    unfolding g a by blast
qed

end
